theory Spec2Isabelle
  imports Complex_Main "HOL-Library.AList"
begin

section \<open>JavaScript values and string operations used by the library\<close>

text \<open>
  The library is TypeScript; the definitions below follow its functions one by one.
  An optional property is an \<open>option\<close>; a counter or a clock reading is a \<open>nat\<close>; an
  object used as a dictionary is an association list in insertion order.
\<close>

text \<open>
  A JavaScript \<open>number\<close> used as a quantity (opacity, radius, width): a real, one of the
  two infinities, or NaN. \<open><\<close> is false as soon as one side is NaN, and \<open>Math.max\<close> and
  \<open>Math.min\<close> answer NaN as soon as one argument is NaN. The library compares such
  numbers and hands them on; it computes nothing with them, so no rounding arises.
\<close>

datatype number = Num real | PosInfinity | NegInfinity | NaN

fun js_less :: "number \<Rightarrow> number \<Rightarrow> bool" where
  "js_less NaN b = False"
| "js_less a NaN = False"
| "js_less NegInfinity b = (b \<noteq> NegInfinity)"
| "js_less a NegInfinity = False"
| "js_less PosInfinity b = False"
| "js_less a PosInfinity = True"
| "js_less (Num x) (Num y) = (x < y)"

definition Math_max :: "number \<Rightarrow> number \<Rightarrow> number" where
  "Math_max a b = (if a = NaN \<or> b = NaN then NaN else if js_less a b then b else a)"

definition Math_min :: "number \<Rightarrow> number \<Rightarrow> number" where
  "Math_min a b = (if a = NaN \<or> b = NaN then NaN else if js_less b a then b else a)"

text \<open>\<open>a || b\<close> on an optional string: an absent and an empty string are both falsy.\<close>

definition truthy :: "string option \<Rightarrow> string option" where
  "truthy a = (case a of None \<Rightarrow> None | Some s \<Rightarrow> if s = [] then None else Some s)"

definition str_or :: "string option \<Rightarrow> string \<Rightarrow> string" where
  "str_or a b = (case truthy a of Some s \<Rightarrow> s | None \<Rightarrow> b)"

text \<open>\<open>a ?? b\<close>: only an absent value is replaced.\<close>

definition nullish :: "'a option \<Rightarrow> 'a \<Rightarrow> 'a" where
  "nullish a b = (case a of Some v \<Rightarrow> v | None \<Rightarrow> b)"

text \<open>\<open>String.prototype.startsWith\<close>, \<open>includes\<close> and \<open>endsWith\<close>.\<close>

fun starts_with :: "string \<Rightarrow> string \<Rightarrow> bool" where
  "starts_with s [] = True"
| "starts_with [] (p # ps) = False"
| "starts_with (c # cs) (p # ps) = (c = p \<and> starts_with cs ps)"

fun str_includes :: "string \<Rightarrow> string \<Rightarrow> bool" where
  "str_includes [] p = (p = [])"
| "str_includes (c # cs) p = (starts_with (c # cs) p \<or> str_includes cs p)"


text \<open>\<open>s.replace(pattern, replacement)\<close> with a string pattern: the first occurrence only.\<close>

fun replace_first :: "string \<Rightarrow> string \<Rightarrow> string \<Rightarrow> string" where
  "replace_first [] p r = (if p = [] then r else [])"
| "replace_first (c # cs) p r =
     (if starts_with (c # cs) p then r @ drop (length p) (c # cs)
      else c # replace_first cs p r)"

text \<open>\<open>n.toString(radix)\<close> for a non-negative integer, digits \<open>0-9a-z\<close>.\<close>

definition digit_char :: "nat \<Rightarrow> char" where
  "digit_char d = ''0123456789abcdefghijklmnopqrstuvwxyz'' ! (d mod 36)"

function to_radix :: "nat \<Rightarrow> nat \<Rightarrow> string" where
  "to_radix b n =
     (if b < 2 \<or> n < b then [digit_char n]
      else to_radix b (n div b) @ [digit_char (n mod b)])"
  by pat_completeness auto
termination
  by (relation "measure snd") auto

definition decimal :: "nat \<Rightarrow> string" where
  "decimal n = to_radix 10 n"

text \<open>\<open>{...a, ...b}\<close>: the keys of \<open>a\<close> in their order, each overwritten in place by the
  value \<open>b\<close> gives it, then the keys only \<open>b\<close> has. (An object lists keys that are
  written like array indices first; that reordering is not described, and no statement
  below depends on the order of keys.)\<close>

definition spread :: "('k \<times> 'v) list \<Rightarrow> ('k \<times> 'v) list \<Rightarrow> ('k \<times> 'v) list" where
  "spread a b = foldl (\<lambda>acc kv. AList.update (fst kv) (snd kv) acc) a b"






fun join :: "string \<Rightarrow> string list \<Rightarrow> string" where
  "join sep [] = []"
| "join sep [x] = x"
| "join sep (x # y # ys) = x @ sep @ join sep (y # ys)"


section \<open>Identifier generator (utils/id-generator.ts)\<close>

text \<open>The two module-level counters. \<open>Date.now()\<close> is an input of each call, and so
  is the prefix: a call without argument passes \<open>layer\<close> or \<open>source\<close>.\<close>

record counters =
  layerCounter :: nat
  sourceCounter :: nat

definition generateLayerId :: "string \<Rightarrow> nat \<Rightarrow> counters \<Rightarrow> string \<times> counters" where
  "generateLayerId prefix now c =
     (let c' = c\<lparr>layerCounter := layerCounter c + 1\<rparr>
      in (''mgl-extend-'' @ prefix @ ''-'' @ decimal (layerCounter c') @ ''-'' @ to_radix 36 now, c'))"

definition generateSourceId :: "string \<Rightarrow> nat \<Rightarrow> counters \<Rightarrow> string \<times> counters" where
  "generateSourceId prefix now c =
     (let c' = c\<lparr>sourceCounter := sourceCounter c + 1\<rparr>
      in (''mgl-extend-'' @ prefix @ ''-'' @ decimal (sourceCounter c') @ ''-'' @ to_radix 36 now, c'))"

definition resetCounters :: "counters \<Rightarrow> counters" where
  "resetCounters c = c\<lparr>layerCounter := 0, sourceCounter := 0\<rparr>"

text \<open>A sequence of calls into the generator, and the identifiers it hands out, each
  tagged with the generator that made it (\<open>True\<close> for a layer identifier).\<close>

datatype generator_call = GenLayer string nat | GenSource string nat | Reset

fun generator_run :: "generator_call list \<Rightarrow> counters \<Rightarrow> (bool \<times> string) list \<times> counters" where
  "generator_run [] c = ([], c)"
| "generator_run (GenLayer p t # cs) c =
     (case generateLayerId p t c of (i, c') \<Rightarrow>
        (case generator_run cs c' of (out, c'') \<Rightarrow> ((True, i) # out, c'')))"
| "generator_run (GenSource p t # cs) c =
     (case generateSourceId p t c of (i, c') \<Rightarrow>
        (case generator_run cs c' of (out, c'') \<Rightarrow> ((False, i) # out, c'')))"
| "generator_run (Reset # cs) c = generator_run cs (resetCounters c)"

text \<open>The shape \<open>{namespace}-{category}-{n}-{suffix}\<close> of the spec.\<close>

definition id_format :: "string \<Rightarrow> nat \<Rightarrow> nat \<Rightarrow> string" where
  "id_format category n now = ''mgl-extend-'' @ category @ ''-'' @ decimal n @ ''-'' @ to_radix 36 now"

text \<open>The calls of one generator in a sequence, in order: category and clock reading.\<close>

fun layer_calls :: "generator_call list \<Rightarrow> (string \<times> nat) list" where
  "layer_calls [] = []"
| "layer_calls (GenLayer p t # cs) = (p, t) # layer_calls cs"
| "layer_calls (c # cs) = layer_calls cs"

fun source_calls :: "generator_call list \<Rightarrow> (string \<times> nat) list" where
  "source_calls [] = []"
| "source_calls (GenSource p t # cs) = (p, t) # source_calls cs"
| "source_calls (c # cs) = source_calls cs"

text \<open>The identifiers a run handed out, by generator.\<close>

definition layer_ids :: "(bool \<times> string) list \<Rightarrow> string list" where
  "layer_ids out = map snd (filter fst out)"

definition source_ids :: "(bool \<times> string) list \<Rightarrow> string list" where
  "source_ids out = map snd (filter (\<lambda>x. \<not> fst x) out)"

text \<open>The identifiers of the given calls when the \<open>k\<close>-th of them is numbered
  \<open>first + k\<close>.\<close>

definition numbered :: "(string \<times> nat) list \<Rightarrow> nat \<Rightarrow> string list" where
  "numbered calls first =
     map (\<lambda>x. id_format (fst (fst x)) (snd x) (snd (fst x)))
       (zip calls [first ..< first + length calls])"

section \<open>Validation (utils/validation.ts)\<close>

datatype detail = DStr string | DList "string list"

datatype error =
    Error string
  | TypeError string
  | MapExtendError string string "(string \<times> detail) list"
  | FetchFailed

definition clamp :: "number \<Rightarrow> number \<Rightarrow> number \<Rightarrow> number" where
  "clamp v lo hi = Math_min (Math_max v lo) hi"

section \<open>The mapping engine, as the library uses it\<close>

text \<open>
  The engine (maplibre-gl's \<open>Map\<close>) is not part of the repository. It is described
  here by the two collections the library reads back, the style's layers in drawing
  order (bottom first) and its sources, and by what each engine call does to them,
  refusals included:
  \<^item> \<open>addSource\<close> throws when the style already has a source under the identifier; a
    source the engine's validation does not accept is not added (the engine reports
    that through an error event, which the library does not listen to);
  \<^item> \<open>addLayer\<close> adds nothing (again only an error event) when the style already has
    a layer under the identifier, when validation does not accept the layer, when the
    layer's source is not in the style, when a raster layer is to be drawn from a
    vector source or a layer of another type from a raster source, when the source is
    a vector source and the layer names no source layer, and when \<open>beforeId\<close> names
    no layer of the style;
  \<^item> \<open>removeSource\<close> removes nothing while a layer of the style uses the source;
  \<^item> \<open>setPaintProperty\<close> sets nothing when the value is NaN, which is not a number
    to the engine's validation.
  What the engine's validation makes of the remaining content of a source or a layer
  (paint values and their ranges, colours, zoom limits, bounds, tile size) is an input
  of each call that adds one: a flag that says whether validation accepted it. The
  properties validation alone reads are not part of a source or a layer here, and the
  camera (\<open>fitBounds\<close>) is left out: nothing reads it back.
\<close>

datatype paint_value = PNum number | PStr string

record engine_layer =
  l_id :: string
  l_type :: string
  l_source :: string
  l_source_layer :: "string option"
  l_paint :: "(string \<times> paint_value) list"
  l_layout :: "(string \<times> string) list"

record engine_source =
  s_type :: string
  s_tiles :: "string list"
  s_url :: "string option"

section \<open>Creation options and the layer registry (layers/types.ts, layers/registry.ts)\<close>

datatype layer_kind = Fill | Line | Circle

fun kind_name :: "layer_kind \<Rightarrow> string" where
  "kind_name Fill = ''fill''"
| "kind_name Line = ''line''"
| "kind_name Circle = ''circle''"

text \<open>The options every creation function reads; of the options of \<open>AddRasterOptions\<close>
  only these reach the state described here. \<open>StyleOptions\<close> holds what
  \<open>AddGeojsonOptions\<close> and \<open>AddVectorOptions\<close> have in common.\<close>

record AddRasterOptions =
  opt_layerId :: "string option"
  opt_sourceId :: "string option"
  opt_opacity :: "number option"
  opt_beforeId :: "string option"

record AddCogOptions = AddRasterOptions +
  tileServerUrl :: "string option"

record AddWmsOptions = AddRasterOptions +
  layers :: string
  format :: "string option"
  version :: "string option"
  crs :: "string option"
  transparent :: "bool option"
  params :: "(string \<times> string) list option"

record StyleOptions = AddRasterOptions +
  opt_type :: "layer_kind option"
  fillColor :: "string option"
  lineColor :: "string option"
  lineWidth :: "number option"
  circleRadius :: "number option"
  circleColor :: "string option"

record AddVectorOptions = StyleOptions +
  sourceLayer :: "string option"

record AddGeojsonOptions = StyleOptions +
  paint :: "(string \<times> paint_value) list option"
  fillOpacity :: "number option"
  circleStrokeColor :: "string option"
  circleStrokeWidth :: "number option"

text \<open>The options object a registry record keeps: the caller's options, with the
  \<open>url\<close> or \<open>baseUrl\<close> that \<open>addCogLayer\<close> and \<open>addWmsLayer\<close> add to it.\<close>

datatype creation_options =
    GeojsonOptions AddGeojsonOptions
  | VectorOptions AddVectorOptions
  | RasterOptions AddRasterOptions
  | CogOptions AddCogOptions string
  | WmsOptions AddWmsOptions string

fun options_opacity :: "creation_options \<Rightarrow> number option" where
  "options_opacity (GeojsonOptions opts) = opt_opacity opts"
| "options_opacity (VectorOptions opts) = opt_opacity opts"
| "options_opacity (RasterOptions opts) = opt_opacity opts"
| "options_opacity (CogOptions opts url) = opt_opacity opts"
| "options_opacity (WmsOptions opts baseUrl) = opt_opacity opts"

record LayerInfo =
  layerId :: string
  sourceId :: string
  kind :: string
  visible :: bool
  opacity :: number
  options :: creation_options

text \<open>
  One map instance: the engine's style, the registry the library keeps on the map
  object under \<open>__maplibreExtendLayers\<close> (absent and empty are the same to every
  reader, \<open>getLayerRegistry\<close> answers \<open>{}\<close> for both), and the map's entry in the
  module's \<open>currentBasemapMap\<close> (\<open>None\<close> for \<open>null\<close> and for no entry). The registry
  is the list of the object's own properties in insertion order. For an identifier that
  has no record but names a property objects inherit (\<open>constructor\<close>, say),
  \<open>registry[layerId]\<close> is that inherited value: it has no \<open>sourceId\<close>, and what the
  update functions write lands on it and not in the registry, so for the layers,
  sources and records described here such an identifier behaves as one without a
  record. The identifier \<open>__proto__\<close>, under which an assignment replaces the object's
  prototype, is outside this description.
\<close>

record map_state =
  style_layers :: "engine_layer list"
  style_sources :: "(string \<times> engine_source) list"
  layer_registry :: "(string \<times> LayerInfo) list"
  currentBasemap :: "string option"

subsection \<open>Engine calls\<close>

definition getLayer :: "map_state \<Rightarrow> string \<Rightarrow> engine_layer option" where
  "getLayer m i = find (\<lambda>l. l_id l = i) (style_layers m)"

definition getSource :: "map_state \<Rightarrow> string \<Rightarrow> engine_source option" where
  "getSource m i = map_of (style_sources m) i"

text \<open>\<open>valid\<close> says whether the engine's validation accepts the source.\<close>

definition addSource :: "bool \<Rightarrow> map_state \<Rightarrow> string \<Rightarrow> engine_source \<Rightarrow> error + map_state" where
  "addSource valid m i s =
     (if getSource m i \<noteq> None then
        Inl (Error (''Source '' @ [CHR 0x22] @ i @ [CHR 0x22] @ '' already exists.''))
      else if \<not> valid then Inr m
      else Inr (m\<lparr>style_sources := style_sources m @ [(i, s)]\<rparr>))"

text \<open>The library calls \<open>removeSource\<close> only after \<open>getSource\<close> has reported the source
  (without it the engine would throw).\<close>

definition removeSource :: "map_state \<Rightarrow> string \<Rightarrow> map_state" where
  "removeSource m i =
     (if \<exists>l \<in> set (style_layers m). l_source l = i then m
      else m\<lparr>style_sources := AList.delete i (style_sources m)\<rparr>)"

text \<open>The place of a new layer: below the layer \<open>b\<close>, which is in the list.\<close>

definition insert_before :: "string \<Rightarrow> engine_layer \<Rightarrow> engine_layer list \<Rightarrow> engine_layer list" where
  "insert_before b l ls =
     takeWhile (\<lambda>x. l_id x \<noteq> b) ls @ l # dropWhile (\<lambda>x. l_id x \<noteq> b) ls"

text \<open>\<open>valid\<close> says whether the engine's validation accepts the layer.\<close>

definition addLayer :: "bool \<Rightarrow> map_state \<Rightarrow> engine_layer \<Rightarrow> string option \<Rightarrow> map_state" where
  "addLayer valid m l before =
     (if getLayer m (l_id l) \<noteq> None then m
      else if \<not> valid then m
      else case getSource m (l_source l) of
             None \<Rightarrow> m
           | Some s \<Rightarrow>
               if s_type s = ''vector'' \<and> l_type l = ''raster'' then m
               else if s_type s = ''raster'' \<and> l_type l \<noteq> ''raster'' then m
               else if s_type s = ''vector'' \<and> truthy (l_source_layer l) = None then m
               else case truthy before of
                      None \<Rightarrow> m\<lparr>style_layers := style_layers m @ [l]\<rparr>
                    | Some b \<Rightarrow>
                        if getLayer m b = None then m
                        else m\<lparr>style_layers := insert_before b l (style_layers m)\<rparr>)"

definition removeLayer :: "map_state \<Rightarrow> string \<Rightarrow> map_state" where
  "removeLayer m i = m\<lparr>style_layers := filter (\<lambda>l. l_id l \<noteq> i) (style_layers m)\<rparr>"

text \<open>The library moves a layer to the top (no \<open>beforeId\<close>) or below a layer it has just
  read from the style.\<close>

definition moveLayer :: "map_state \<Rightarrow> string \<Rightarrow> string option \<Rightarrow> map_state" where
  "moveLayer m i before =
     (case getLayer m i of
        None \<Rightarrow> m
      | Some l \<Rightarrow>
          (case truthy before of
             None \<Rightarrow> m\<lparr>style_layers := filter (\<lambda>x. l_id x \<noteq> i) (style_layers m) @ [l]\<rparr>
           | Some b \<Rightarrow>
               if b = i \<or> getLayer m b = None then m
               else m\<lparr>style_layers :=
                        insert_before b l (filter (\<lambda>x. l_id x \<noteq> i) (style_layers m))\<rparr>))"

definition setLayoutProperty :: "map_state \<Rightarrow> string \<Rightarrow> string \<Rightarrow> string \<Rightarrow> map_state" where
  "setLayoutProperty m i k v =
     m\<lparr>style_layers :=
        map (\<lambda>l. if l_id l = i then l\<lparr>l_layout := AList.update k v (l_layout l)\<rparr> else l)
          (style_layers m)\<rparr>"

definition setPaintProperty :: "map_state \<Rightarrow> string \<Rightarrow> string \<Rightarrow> paint_value \<Rightarrow> map_state" where
  "setPaintProperty m i k v =
     (if v = PNum NaN then m
      else m\<lparr>style_layers :=
             map (\<lambda>l. if l_id l = i then l\<lparr>l_paint := AList.update k v (l_paint l)\<rparr> else l)
               (style_layers m)\<rparr>)"

subsection \<open>The registry (layers/registry.ts)\<close>

definition getLayerRegistry :: "map_state \<Rightarrow> (string \<times> LayerInfo) list" where
  "getLayerRegistry m = layer_registry m"

definition storeLayerInfo :: "map_state \<Rightarrow> string \<Rightarrow> string \<Rightarrow> string \<Rightarrow> creation_options \<Rightarrow> map_state" where
  "storeLayerInfo m lid sid ty opts =
     (let registry = getLayerRegistry m;
          registry' = AList.update lid
            \<lparr>layerId = lid, sourceId = sid, kind = ty, visible = True,
             opacity = nullish (options_opacity opts) (Num 1), options = opts\<rparr> registry
      in m\<lparr>layer_registry := registry'\<rparr>)"

definition removeLayerInfo :: "map_state \<Rightarrow> string \<Rightarrow> map_state" where
  "removeLayerInfo m lid =
     (let registry = getLayerRegistry m
      in m\<lparr>layer_registry := AList.delete lid registry\<rparr>)"

definition updateLayerVisibility :: "map_state \<Rightarrow> string \<Rightarrow> bool \<Rightarrow> map_state" where
  "updateLayerVisibility m lid v =
     (let registry = getLayerRegistry m
      in case map_of registry lid of
           Some r \<Rightarrow> m\<lparr>layer_registry := AList.update lid (r\<lparr>visible := v\<rparr>) registry\<rparr>
         | None \<Rightarrow> m)"

definition updateLayerOpacity :: "map_state \<Rightarrow> string \<Rightarrow> number \<Rightarrow> map_state" where
  "updateLayerOpacity m lid v =
     (let registry = getLayerRegistry m
      in case map_of registry lid of
           Some r \<Rightarrow> m\<lparr>layer_registry := AList.update lid (r\<lparr>opacity := v\<rparr>) registry\<rparr>
         | None \<Rightarrow> m)"

definition getAllCustomLayers :: "map_state \<Rightarrow> LayerInfo list" where
  "getAllCustomLayers m = map snd (getLayerRegistry m)"

definition getLayerInfoById :: "map_state \<Rightarrow> string \<Rightarrow> LayerInfo option" where
  "getLayerInfoById m lid = map_of (getLayerRegistry m) lid"

section \<open>Layer management (layers/management.ts)\<close>

definition removeLayerById :: "map_state \<Rightarrow> string \<Rightarrow> map_state" where
  "removeLayerById m lid =
     (let layerInfo = getLayerInfoById m lid;
          m1 = (if getLayer m lid \<noteq> None then removeLayer m lid else m);
          m2 = (case layerInfo of
                  None \<Rightarrow> m1
                | Some info \<Rightarrow>
                    if getSource m1 (sourceId info) \<noteq> None then
                      (let allLayers = getAllCustomLayers m1;
                           otherLayersUsingSameSource =
                             filter (\<lambda>l. sourceId l = sourceId info \<and> layerId l \<noteq> lid) allLayers
                       in if length otherLayersUsingSameSource = 0
                          then removeSource m1 (sourceId info) else m1)
                    else m1)
      in removeLayerInfo m2 lid)"

definition setLayerVisibility :: "map_state \<Rightarrow> string \<Rightarrow> bool \<Rightarrow> map_state" where
  "setLayerVisibility m lid v =
     (if getLayer m lid \<noteq> None then
        updateLayerVisibility
          (setLayoutProperty m lid ''visibility'' (if v then ''visible'' else ''none'')) lid v
      else m)"

definition setLayerOpacity :: "map_state \<Rightarrow> string \<Rightarrow> number \<Rightarrow> map_state" where
  "setLayerOpacity m lid v =
     (let clampedOpacity = clamp v (Num 0) (Num 1)
      in case getLayer m lid of
           None \<Rightarrow> m
         | Some layer \<Rightarrow>
             (let layerType = l_type layer;
                  m1 = (if layerType = ''fill'' then
                          setPaintProperty m lid ''fill-opacity'' (PNum clampedOpacity)
                        else if layerType = ''line'' then
                          setPaintProperty m lid ''line-opacity'' (PNum clampedOpacity)
                        else if layerType = ''circle'' then
                          setPaintProperty m lid ''circle-opacity'' (PNum clampedOpacity)
                        else if layerType = ''raster'' then
                          setPaintProperty m lid ''raster-opacity'' (PNum clampedOpacity)
                        else if layerType = ''symbol'' then
                          setPaintProperty
                            (setPaintProperty m lid ''icon-opacity'' (PNum clampedOpacity))
                            lid ''text-opacity'' (PNum clampedOpacity)
                        else m)
              in updateLayerOpacity m1 lid clampedOpacity))"




section \<open>Basemaps (basemaps/catalog.ts, basemaps/index.ts)\<close>

text \<open>A catalog entry. The attribution text is only handed through to the engine and is
  left out.\<close>

record BasemapDefinition =
  bm_name :: string
  url :: string
  maxZoom :: "nat option"
  minZoom :: "nat option"
  subdomains :: "string option"
  tileSize :: "nat option"

definition entry :: "string \<Rightarrow> string \<Rightarrow> string \<Rightarrow> nat \<Rightarrow> string option \<Rightarrow> string \<times> BasemapDefinition" where
  "entry key n u z sub =
     (key, \<lparr>bm_name = n, url = u, maxZoom = Some z, minZoom = None, subdomains = sub, tileSize = None\<rparr>)"

definition basemaps :: "(string \<times> BasemapDefinition) list" where
  "basemaps = [
     entry ''OpenStreetMap.Mapnik'' ''OpenStreetMap''
       ''https://tile.openstreetmap.org/{z}/{x}/{y}.png'' 19 None,
     entry ''OpenStreetMap.DE'' ''OpenStreetMap DE''
       ''https://tile.openstreetmap.de/{z}/{x}/{y}.png'' 18 None,
     entry ''OpenStreetMap.France'' ''OpenStreetMap France''
       ''https://{s}.tile.openstreetmap.fr/osmfr/{z}/{x}/{y}.png'' 20 (Some ''abc''),
     entry ''OpenStreetMap.HOT'' ''OpenStreetMap HOT''
       ''https://{s}.tile.openstreetmap.fr/hot/{z}/{x}/{y}.png'' 19 (Some ''abc''),
     entry ''CartoDB.Positron'' ''CartoDB Positron''
       ''https://{s}.basemaps.cartocdn.com/light_all/{z}/{x}/{y}{r}.png'' 20 (Some ''abcd''),
     entry ''CartoDB.PositronNoLabels'' ''CartoDB Positron (No Labels)''
       ''https://{s}.basemaps.cartocdn.com/light_nolabels/{z}/{x}/{y}{r}.png'' 20 (Some ''abcd''),
     entry ''CartoDB.PositronOnlyLabels'' ''CartoDB Positron (Labels Only)''
       ''https://{s}.basemaps.cartocdn.com/light_only_labels/{z}/{x}/{y}{r}.png'' 20 (Some ''abcd''),
     entry ''CartoDB.DarkMatter'' ''CartoDB Dark Matter''
       ''https://{s}.basemaps.cartocdn.com/dark_all/{z}/{x}/{y}{r}.png'' 20 (Some ''abcd''),
     entry ''CartoDB.DarkMatterNoLabels'' ''CartoDB Dark Matter (No Labels)''
       ''https://{s}.basemaps.cartocdn.com/dark_nolabels/{z}/{x}/{y}{r}.png'' 20 (Some ''abcd''),
     entry ''CartoDB.DarkMatterOnlyLabels'' ''CartoDB Dark Matter (Labels Only)''
       ''https://{s}.basemaps.cartocdn.com/dark_only_labels/{z}/{x}/{y}{r}.png'' 20 (Some ''abcd''),
     entry ''CartoDB.Voyager'' ''CartoDB Voyager''
       ''https://{s}.basemaps.cartocdn.com/rastertiles/voyager/{z}/{x}/{y}{r}.png'' 20 (Some ''abcd''),
     entry ''CartoDB.VoyagerNoLabels'' ''CartoDB Voyager (No Labels)''
       ''https://{s}.basemaps.cartocdn.com/rastertiles/voyager_nolabels/{z}/{x}/{y}{r}.png'' 20 (Some ''abcd''),
     entry ''CartoDB.VoyagerOnlyLabels'' ''CartoDB Voyager (Labels Only)''
       ''https://{s}.basemaps.cartocdn.com/rastertiles/voyager_only_labels/{z}/{x}/{y}{r}.png'' 20 (Some ''abcd''),
     entry ''CartoDB.VoyagerLabelsUnder'' ''CartoDB Voyager (Labels Under)''
       ''https://{s}.basemaps.cartocdn.com/rastertiles/voyager_labels_under/{z}/{x}/{y}{r}.png'' 20 (Some ''abcd''),
     entry ''Esri.WorldStreetMap'' ''Esri World Street Map''
       ''https://server.arcgisonline.com/ArcGIS/rest/services/World_Street_Map/MapServer/tile/{z}/{y}/{x}'' 19 None,
     entry ''Esri.DeLorme'' ''Esri DeLorme''
       ''https://server.arcgisonline.com/ArcGIS/rest/services/Specialty/DeLorme_World_Base_Map/MapServer/tile/{z}/{y}/{x}'' 11 None,
     entry ''Esri.WorldTopoMap'' ''Esri World Topo Map''
       ''https://server.arcgisonline.com/ArcGIS/rest/services/World_Topo_Map/MapServer/tile/{z}/{y}/{x}'' 19 None,
     entry ''Esri.WorldImagery'' ''Esri World Imagery''
       ''https://server.arcgisonline.com/ArcGIS/rest/services/World_Imagery/MapServer/tile/{z}/{y}/{x}'' 19 None,
     entry ''Esri.WorldTerrain'' ''Esri World Terrain''
       ''https://server.arcgisonline.com/ArcGIS/rest/services/World_Terrain_Base/MapServer/tile/{z}/{y}/{x}'' 13 None,
     entry ''Esri.WorldShadedRelief'' ''Esri World Shaded Relief''
       ''https://server.arcgisonline.com/ArcGIS/rest/services/World_Shaded_Relief/MapServer/tile/{z}/{y}/{x}'' 13 None,
     entry ''Esri.WorldPhysical'' ''Esri World Physical''
       ''https://server.arcgisonline.com/ArcGIS/rest/services/World_Physical_Map/MapServer/tile/{z}/{y}/{x}'' 8 None,
     entry ''Esri.OceanBasemap'' ''Esri Ocean Basemap''
       ''https://server.arcgisonline.com/ArcGIS/rest/services/Ocean/World_Ocean_Base/MapServer/tile/{z}/{y}/{x}'' 13 None,
     entry ''Esri.NatGeoWorldMap'' ''Esri National Geographic World Map''
       ''https://server.arcgisonline.com/ArcGIS/rest/services/NatGeo_World_Map/MapServer/tile/{z}/{y}/{x}'' 16 None,
     entry ''Esri.WorldGrayCanvas'' ''Esri World Gray Canvas''
       ''https://server.arcgisonline.com/ArcGIS/rest/services/Canvas/World_Light_Gray_Base/MapServer/tile/{z}/{y}/{x}'' 16 None,
     entry ''OpenTopoMap'' ''OpenTopoMap''
       ''https://{s}.tile.opentopomap.org/{z}/{x}/{y}.png'' 17 (Some ''abc''),
     entry ''USGS.USTopo'' ''USGS US Topo''
       ''https://basemap.nationalmap.gov/arcgis/rest/services/USGSTopo/MapServer/tile/{z}/{y}/{x}'' 20 None,
     entry ''USGS.USImagery'' ''USGS US Imagery''
       ''https://basemap.nationalmap.gov/arcgis/rest/services/USGSImageryOnly/MapServer/tile/{z}/{y}/{x}'' 20 None,
     entry ''USGS.USImageryTopo'' ''USGS US Imagery Topo''
       ''https://basemap.nationalmap.gov/arcgis/rest/services/USGSImageryTopo/MapServer/tile/{z}/{y}/{x}'' 20 None,
     entry ''Stadia.AlidadeSmooth'' ''Stadia Alidade Smooth''
       ''https://tiles.stadiamaps.com/tiles/alidade_smooth/{z}/{x}/{y}{r}.png'' 20 None,
     entry ''Stadia.AlidadeSmoothDark'' ''Stadia Alidade Smooth Dark''
       ''https://tiles.stadiamaps.com/tiles/alidade_smooth_dark/{z}/{x}/{y}{r}.png'' 20 None,
     entry ''Stadia.OSMBright'' ''Stadia OSM Bright''
       ''https://tiles.stadiamaps.com/tiles/osm_bright/{z}/{x}/{y}{r}.png'' 20 None,
     entry ''Stadia.Outdoors'' ''Stadia Outdoors''
       ''https://tiles.stadiamaps.com/tiles/outdoors/{z}/{x}/{y}{r}.png'' 20 None,
     entry ''Stadia.StamenToner'' ''Stadia Stamen Toner''
       ''https://tiles.stadiamaps.com/tiles/stamen_toner/{z}/{x}/{y}{r}.png'' 20 None,
     entry ''Stadia.StamenTonerLite'' ''Stadia Stamen Toner Lite''
       ''https://tiles.stadiamaps.com/tiles/stamen_toner_lite/{z}/{x}/{y}{r}.png'' 20 None,
     entry ''Stadia.StamenWatercolor'' ''Stadia Stamen Watercolor''
       ''https://tiles.stadiamaps.com/tiles/stamen_watercolor/{z}/{x}/{y}.jpg'' 16 None,
     entry ''Stadia.StamenTerrain'' ''Stadia Stamen Terrain''
       ''https://tiles.stadiamaps.com/tiles/stamen_terrain/{z}/{x}/{y}{r}.png'' 18 None,
     entry ''Google.Streets'' ''Google Streets''
       ''https://mt1.google.com/vt/lyrs=m&x={x}&y={y}&z={z}'' 21 None,
     entry ''Google.Satellite'' ''Google Satellite''
       ''https://mt1.google.com/vt/lyrs=s&x={x}&y={y}&z={z}'' 21 None,
     entry ''Google.Hybrid'' ''Google Hybrid''
       ''https://mt1.google.com/vt/lyrs=y&x={x}&y={y}&z={z}'' 21 None,
     entry ''Google.Terrain'' ''Google Terrain''
       ''https://mt1.google.com/vt/lyrs=p&x={x}&y={y}&z={z}'' 21 None]"

text \<open>
  \<open>basemaps\<close> is an object literal, so \<open>basemaps[name]\<close> finds its own forty keys
  and also what every object inherits from \<open>Object.prototype\<close>: for those names the
  index expression yields a function (or, for \<open>__proto__\<close>, the prototype object), a
  truthy value with no \<open>url\<close>. \<open>Object.keys\<close> lists the own keys only.
\<close>

datatype 'a js_property = Own 'a | Inherited | Undefined

definition Object_prototype_names :: "string list" where
  "Object_prototype_names =
     [''constructor'', ''__defineGetter__'', ''__defineSetter__'', ''hasOwnProperty'',
      ''__lookupGetter__'', ''__lookupSetter__'', ''isPrototypeOf'', ''propertyIsEnumerable'',
      ''toString'', ''valueOf'', ''__proto__'', ''toLocaleString'']"

definition BASEMAP_SOURCE_ID :: string where
  "BASEMAP_SOURCE_ID = ''__maplibre-extend-basemap''"

definition BASEMAP_LAYER_ID :: string where
  "BASEMAP_LAYER_ID = ''__maplibre-extend-basemap-layer''"

definition getBasemapNames :: "string list" where
  "getBasemapNames = map fst basemaps"

definition getBasemapDefinition :: "string \<Rightarrow> BasemapDefinition js_property" where
  "getBasemapDefinition name =
     (case map_of basemaps name of
        Some d \<Rightarrow> Own d
      | None \<Rightarrow> if name \<in> set Object_prototype_names then Inherited else Undefined)"

text \<open>\<open>hidpi\<close> stands for \<open>typeof window !== 'undefined' && window.devicePixelRatio > 1\<close>.
  Reading \<open>url\<close> off a value that has none gives \<open>undefined\<close>, and calling
  \<open>replace\<close> on it throws a \<open>TypeError\<close>.\<close>

definition buildTileUrls :: "bool \<Rightarrow> BasemapDefinition js_property \<Rightarrow> error + string list" where
  "buildTileUrls hidpi definition =
     (case definition of
        Own d \<Rightarrow>
          (let r = (if hidpi then ''@2x'' else [])
           in case truthy (subdomains d) of
                Some sub \<Rightarrow> Inr (map (\<lambda>s. replace_first (replace_first (url d) ''{s}'' [s]) ''{r}'' r) sub)
              | None \<Rightarrow> Inr [replace_first (url d) ''{r}'' r])
      | _ \<Rightarrow> Inl (TypeError ''Cannot read properties of undefined''))"

definition removeBasemap :: "map_state \<Rightarrow> map_state" where
  "removeBasemap m =
     (let m1 = (if getLayer m BASEMAP_LAYER_ID \<noteq> None then removeLayer m BASEMAP_LAYER_ID else m);
          m2 = (if getSource m1 BASEMAP_SOURCE_ID \<noteq> None then removeSource m1 BASEMAP_SOURCE_ID else m1)
      in m2\<lparr>currentBasemap := None\<rparr>)"

text \<open>A call either returns (\<open>Inr\<close>, with the map as the call left it) or throws
  (\<open>Inl\<close>, with the error and the map as it was when the error was thrown). The
  basemap's source and layer are built from the catalog and pass the engine's
  validation.\<close>

definition addBasemap :: "bool \<Rightarrow> map_state \<Rightarrow> string \<Rightarrow> error \<times> map_state + map_state" where
  "addBasemap hidpi m name =
     (let definition = getBasemapDefinition name
      in if definition = Undefined then
           Inl (Error (''Unknown basemap: '' @ name @ ''. Available basemaps: ''
                         @ join '', '' getBasemapNames), m)
         else
           (let m1 = removeBasemap m
            in case buildTileUrls hidpi definition of
                 Inl e \<Rightarrow> Inl (e, m1)
               | Inr tiles \<Rightarrow>
                   (case addSource True m1 BASEMAP_SOURCE_ID
                           \<lparr>s_type = ''raster'', s_tiles = tiles, s_url = None\<rparr> of
                      Inl e \<Rightarrow> Inl (e, m1)
                    | Inr m2 \<Rightarrow>
                        (let ls = style_layers m2;
                             firstLayerId = (if length ls > 0 then Some (l_id (hd ls)) else None);
                             m3 = addLayer True m2
                                    \<lparr>l_id = BASEMAP_LAYER_ID, l_type = ''raster'',
                                     l_source = BASEMAP_SOURCE_ID, l_source_layer = None,
                                     l_paint = [(''raster-opacity'', PNum (Num 1))], l_layout = []\<rparr>
                                    firstLayerId
                         in Inr (m3\<lparr>currentBasemap := Some name\<rparr>)))))"

definition setBasemap :: "bool \<Rightarrow> map_state \<Rightarrow> string \<Rightarrow> error \<times> map_state + map_state" where
  "setBasemap hidpi m name = addBasemap hidpi m name"

definition getBasemap :: "map_state \<Rightarrow> string option" where
  "getBasemap m = truthy (currentBasemap m)"

text \<open>\<open>validateBasemapName\<close> (utils/validation.ts): a separate, exported check, which
  \<open>addBasemap\<close> does not call.\<close>

definition validateBasemapName :: "string \<Rightarrow> error + unit" where
  "validateBasemapName name =
     (let validNames = getBasemapNames
      in if name \<notin> set validNames then
           Inl (MapExtendError
                  (''Unknown basemap: '' @ name @ ''. Valid options: '' @ join '', '' validNames)
                  ''UNKNOWN_BASEMAP''
                  [(''name'', DStr name), (''validNames'', DList validNames)])
         else Inr ())"

section \<open>Layer creation (layers/raster.ts, layers/geojson.ts)\<close>

text \<open>
  The creation functions work on the module's counters and on one map. Each begins with
  the same two lines, \<open>options.sourceId || generateSourceId(category)\<close> and
  \<open>options.layerId || generateLayerId(category)\<close>, which call a generator only when the
  caller gave no identifier (or an empty one); \<open>t1\<close> and \<open>t2\<close> are the readings of
  \<open>Date.now()\<close> the two generators would take. \<open>source_valid\<close> and \<open>layer_valid\<close> say
  whether the engine's validation accepts the source and the layer the call hands to
  it. A call returns the layer identifier (\<open>Inr\<close>) or throws (\<open>Inl\<close>), in both cases
  with the counters and the map as it left them.
\<close>

type_synonym world = "counters \<times> map_state"

definition id_or :: "string option \<Rightarrow> (counters \<Rightarrow> string \<times> counters) \<Rightarrow> counters \<Rightarrow> string \<times> counters" where
  "id_or given generate c = (case truthy given of Some s \<Rightarrow> (s, c) | None \<Rightarrow> generate c)"

definition creation_ids ::
  "string \<Rightarrow> nat \<Rightarrow> nat \<Rightarrow> 'a AddRasterOptions_scheme \<Rightarrow> counters \<Rightarrow> string \<times> string \<times> counters" where
  "creation_ids category t1 t2 opts c =
     (case id_or (opt_sourceId opts) (generateSourceId category t1) c of (sid, c1) \<Rightarrow>
      case id_or (opt_layerId opts) (generateLayerId category t2) c1 of (lid, c2) \<Rightarrow>
        (sid, lid, c2))"








subsection \<open>GeoJSON\<close>

text \<open>GeoJSON data, as far as \<open>detectGeometryType\<close> reads it: the \<open>type\<close> of each
  geometry; a feature's geometry may be \<open>null\<close>.\<close>

datatype geometry = Geometry (gtype: string)

datatype geojson =
    Feature "geometry option"
  | FeatureCollection "geometry option list"
  | GeometryObject geometry

datatype geometry_class = Point | LineString | Polygon | Mixed

text \<open>The three tests on a type name, in the source's order; \<open>None\<close> when none of them
  returns.\<close>

definition by_name :: "string option \<Rightarrow> geometry_class option" where
  "by_name t =
     (case t of
        None \<Rightarrow> None
      | Some n \<Rightarrow>
          if str_includes n ''Point'' then Some Point
          else if str_includes n ''Line'' then Some LineString
          else if str_includes n ''Polygon'' then Some Polygon
          else None)"

text \<open>\<open>new Set(xs)\<close>: the distinct values in the order of their first occurrence.\<close>

definition js_set :: "'a list \<Rightarrow> 'a list" where
  "js_set xs = foldl (\<lambda>acc x. if x \<in> set acc then acc else acc @ [x]) [] xs"

definition detectGeometryType :: "geojson \<Rightarrow> geometry_class" where
  "detectGeometryType data =
     (case data of
        Feature g \<Rightarrow>
          (case by_name (map_option gtype g) of
             Some c \<Rightarrow> c
           | None \<Rightarrow> nullish (by_name (Some ''Feature'')) Mixed)
      | FeatureCollection features \<Rightarrow>
          (let types = js_set (map (\<lambda>f. nullish (by_name (map_option gtype f)) Mixed) features)
           in case types of [t] \<Rightarrow> t | _ \<Rightarrow> Mixed)
      | GeometryObject geom \<Rightarrow> nullish (by_name (Some (gtype geom))) Mixed)"

fun getDefaultLayerType :: "geometry_class \<Rightarrow> layer_kind" where
  "getDefaultLayerType Point = Circle"
| "getDefaultLayerType LineString = Line"
| "getDefaultLayerType Polygon = Fill"
| "getDefaultLayerType _ = Fill"

text \<open>\<open>options.type || getDefaultLayerType(detectGeometryType(geojsonData))\<close>.\<close>

definition geojsonLayerType :: "AddGeojsonOptions \<Rightarrow> geojson \<Rightarrow> layer_kind" where
  "geojsonLayerType opts data =
     (case opt_type opts of
        Some k \<Rightarrow> k
      | None \<Rightarrow> getDefaultLayerType (detectGeometryType data))"


definition geojsonPaint :: "AddGeojsonOptions \<Rightarrow> layer_kind \<Rightarrow> (string \<times> paint_value) list" where
  "geojsonPaint opts layerType =
     (let p = (case layerType of
                 Fill \<Rightarrow>
                   [(''fill-color'', PStr (str_or (fillColor opts) ''#3388ff'')),
                    (''fill-opacity'',
                       PNum (nullish (fillOpacity opts) (nullish (opt_opacity opts) (Num 0.5))))]
                   @ (case truthy (lineColor opts) of
                        Some col \<Rightarrow> [(''fill-outline-color'', PStr col)]
                      | None \<Rightarrow> [])
               | Line \<Rightarrow>
                   [(''line-color'', PStr (str_or (lineColor opts) ''#3388ff'')),
                    (''line-width'', PNum (nullish (lineWidth opts) (Num 2))),
                    (''line-opacity'', PNum (nullish (opt_opacity opts) (Num 1)))]
               | Circle \<Rightarrow>
                   [(''circle-color'', PStr (str_or (circleColor opts) ''#3388ff'')),
                    (''circle-radius'', PNum (nullish (circleRadius opts) (Num 6))),
                    (''circle-opacity'', PNum (nullish (opt_opacity opts) (Num 1))),
                    (''circle-stroke-color'', PStr (str_or (circleStrokeColor opts) ''#ffffff'')),
                    (''circle-stroke-width'', PNum (nullish (circleStrokeWidth opts) (Num 1)))])
      in case paint opts of Some custom \<Rightarrow> spread p custom | None \<Rightarrow> p)"

text \<open>The data argument is GeoJSON or a URL to fetch it from; \<open>fetch\<close> answers \<open>None\<close>
  when the request or the parsing of its body fails, and the call then throws after
  the identifiers have been generated.\<close>

datatype geojson_argument = Data geojson | Url string

definition addGeojson ::
  "(string \<Rightarrow> geojson option) \<Rightarrow> bool \<Rightarrow> bool \<Rightarrow> nat \<Rightarrow> nat \<Rightarrow> geojson_argument
     \<Rightarrow> AddGeojsonOptions \<Rightarrow> world \<Rightarrow> error \<times> world + string \<times> world" where
  "addGeojson fetch source_valid layer_valid t1 t2 data opts w =
     (case w of (c, m) \<Rightarrow>
      case creation_ids ''geojson'' t1 t2 opts c of (sid, lid, c2) \<Rightarrow>
      case (case data of Url u \<Rightarrow> fetch u | Data g \<Rightarrow> Some g) of
        None \<Rightarrow> Inl (FetchFailed, (c2, m))
      | Some geojsonData \<Rightarrow>
          (let layerType = geojsonLayerType opts geojsonData
           in case addSource source_valid m sid
                     \<lparr>s_type = ''geojson'', s_tiles = [], s_url = None\<rparr> of
                Inl e \<Rightarrow> Inl (e, (c2, m))
              | Inr m1 \<Rightarrow>
                  (let m2 = addLayer layer_valid m1
                              \<lparr>l_id = lid, l_type = kind_name layerType, l_source = sid,
                               l_source_layer = None,
                               l_paint = geojsonPaint opts layerType, l_layout = []\<rparr>
                              (opt_beforeId opts);
                       m3 = storeLayerInfo m2 lid sid ''geojson'' (GeojsonOptions opts)
                   in Inr (lid, (c2, m3)))))"



section \<open>Sequences of operations\<close>

text \<open>The operations on layers that the library offers, with the arguments of each call
  (for a creation call the two validation verdicts and the two clock readings come
  first). A call returns the identifier of its layer when it is a creation call that
  does not throw, and the world as the call left it; a creation call that throws
  leaves the world as it was when it threw.\<close>

datatype operation =
    AddGeojson bool bool nat nat geojson_argument AddGeojsonOptions
  | AddVector bool bool nat nat string AddVectorOptions
  | AddRaster bool bool nat nat string AddRasterOptions
  | AddCogLayer bool bool nat nat string AddCogOptions
  | AddWmsLayer bool bool nat nat string AddWmsOptions
  | SetLayerVisibility string bool
  | SetLayerOpacity string number
  | BringLayerToFront string
  | SendLayerToBack string
  | RemoveLayerById string








section \<open>Readings used in the statements\<close>

text \<open>The value the engine holds for a paint property of a layer.\<close>

definition getPaintProperty :: "map_state \<Rightarrow> string \<Rightarrow> string \<Rightarrow> paint_value option" where
  "getPaintProperty m i k = (case getLayer m i of Some l \<Rightarrow> map_of (l_paint l) k | None \<Rightarrow> None)"

text \<open>The error a call threw, and the code and detail mapping an error carries (only a
  \<open>MapExtendError\<close> has them).\<close>

definition thrown :: "error \<times> 's + 'a \<Rightarrow> error option" where
  "thrown r = (case r of Inl (e, s) \<Rightarrow> Some e | Inr a \<Rightarrow> None)"

text \<open>The map as a call left it, whether it returned or threw.\<close>

definition state_after :: "error \<times> 's + 's \<Rightarrow> 's" where
  "state_after r = (case r of Inl (e, s) \<Rightarrow> s | Inr s \<Rightarrow> s)"

fun error_code :: "error \<Rightarrow> string option" where
  "error_code (MapExtendError msg code details) = Some code"
| "error_code e = None"

fun error_details :: "error \<Rightarrow> (string \<times> detail) list option" where
  "error_details (MapExtendError msg code details) = Some details"
| "error_details e = None"

text \<open>The geometry types of GeoJSON by family, and the layer kind the spec gives each
  family.\<close>

definition family_of_type :: "string \<Rightarrow> geometry_class option" where
  "family_of_type t =
     (if t \<in> set [''Point'', ''MultiPoint''] then Some Point
      else if t \<in> set [''LineString'', ''MultiLineString''] then Some LineString
      else if t \<in> set [''Polygon'', ''MultiPolygon''] then Some Polygon
      else None)"

fun spec_layer_kind :: "geometry_class \<Rightarrow> layer_kind" where
  "spec_layer_kind Point = Circle"
| "spec_layer_kind LineString = Line"
| "spec_layer_kind Polygon = Fill"
| "spec_layer_kind Mixed = Fill"

section \<open>Example states\<close>

definition empty_map :: map_state where
  "empty_map = \<lparr>style_layers = [], style_sources = [], layer_registry = [], currentBasemap = None\<rparr>"

definition fresh_counters :: counters where
  "fresh_counters = \<lparr>layerCounter = 0, sourceCounter = 0\<rparr>"

definition no_options :: AddRasterOptions where
  "no_options = \<lparr>opt_layerId = None, opt_sourceId = None, opt_opacity = None, opt_beforeId = None\<rparr>"

definition raster_layer :: "string \<Rightarrow> string \<Rightarrow> engine_layer" where
  "raster_layer i s =
     \<lparr>l_id = i, l_type = ''raster'', l_source = s, l_source_layer = None,
      l_paint = [(''raster-opacity'', PNum (Num 1))], l_layout = []\<rparr>"

definition raster_record :: "string \<Rightarrow> string \<Rightarrow> LayerInfo" where
  "raster_record i s =
     \<lparr>layerId = i, sourceId = s, kind = ''raster'', visible = True, opacity = Num 1,
      options = RasterOptions no_options\<rparr>"

text \<open>Two layers \<open>a\<close> and \<open>b\<close> drawn from one source \<open>s\<close>, both in the registry.\<close>

definition shared_source_map :: map_state where
  "shared_source_map =
     \<lparr>style_layers = [raster_layer ''a'' ''s'', raster_layer ''b'' ''s''],
      style_sources = [(''s'', \<lparr>s_type = ''raster'', s_tiles = [''https://example.com/{z}/{x}/{y}.png''], s_url = None\<rparr>)],
      layer_registry = [(''a'', raster_record ''a'' ''s''), (''b'', raster_record ''b'' ''s'')],
      currentBasemap = None\<rparr>"

text \<open>A registry record \<open>a\<close> whose engine layer is gone (removed through the engine's own
  \<open>removeLayer\<close>, say).\<close>

definition orphan_map :: map_state where
  "orphan_map =
     \<lparr>style_layers = [],
      style_sources = [(''s'', \<lparr>s_type = ''raster'', s_tiles = [''https://example.com/{z}/{x}/{y}.png''], s_url = None\<rparr>)],
      layer_registry = [(''a'', raster_record ''a'' ''s'')],
      currentBasemap = None\<rparr>"

text \<open>A registry record \<open>a\<close> on source \<open>s\<close>, and a layer \<open>x\<close> that the application
  added through the engine's own \<open>addLayer\<close>, drawn from the same source: no record
  other than \<open>a\<close> references \<open>s\<close>.\<close>

definition foreign_layer_map :: map_state where
  "foreign_layer_map =
     \<lparr>style_layers = [raster_layer ''a'' ''s'', raster_layer ''x'' ''s''],
      style_sources = [(''s'', \<lparr>s_type = ''raster'', s_tiles = [''https://example.com/{z}/{x}/{y}.png''], s_url = None\<rparr>)],
      layer_registry = [(''a'', raster_record ''a'' ''s'')],
      currentBasemap = None\<rparr>"

text \<open>The WMS options of the repository's test, and the same with extra parameters that
  name \<open>service\<close>, \<open>request\<close> and \<open>bbox\<close>.\<close>

definition test_wms_options :: AddWmsOptions where
  "test_wms_options =
     \<lparr>opt_layerId = None, opt_sourceId = None, opt_opacity = None, opt_beforeId = None,
      layers = ''layer1,layer2'', format = Some ''image/png'', version = None, crs = None,
      transparent = Some True, params = None\<rparr>"

definition overriding_wms_options :: AddWmsOptions where
  "overriding_wms_options =
     test_wms_options\<lparr>params :=
        Some [(''service'', ''WFS''), (''request'', ''GetCapabilities''), (''bbox'', ''0,0,1,1'')]\<rparr>"

text \<open>A map on which \<open>OpenStreetMap.Mapnik\<close> is the active basemap.\<close>

definition mapnik_map :: map_state where
  "mapnik_map =
     \<lparr>style_layers =
        [\<lparr>l_id = ''__maplibre-extend-basemap-layer'', l_type = ''raster'',
          l_source = ''__maplibre-extend-basemap'', l_source_layer = None,
          l_paint = [(''raster-opacity'', PNum (Num 1))], l_layout = []\<rparr>],
      style_sources =
        [(''__maplibre-extend-basemap'',
          \<lparr>s_type = ''raster'', s_tiles = [''https://tile.openstreetmap.org/{z}/{x}/{y}.png''],
           s_url = None\<rparr>)],
      layer_registry = [],
      currentBasemap = Some ''OpenStreetMap.Mapnik''\<rparr>"

text \<open>\<open>addGeojson\<close> called with no options, and a short sequence of operations.\<close>

definition no_geojson_options :: AddGeojsonOptions where
  "no_geojson_options =
     \<lparr>opt_layerId = None, opt_sourceId = None, opt_opacity = None, opt_beforeId = None,
      opt_type = None, fillColor = None, lineColor = None, lineWidth = None,
      circleRadius = None, circleColor = None,
      paint = None, fillOpacity = None, circleStrokeColor = None, circleStrokeWidth = None\<rparr>"

definition example_operations :: "operation list" where
  "example_operations =
     [AddRaster True True 10 11 ''https://example.com/{z}/{x}/{y}.png'' no_options,
      AddGeojson True True 12 13 (Data (GeometryObject (Geometry ''Point''))) no_geojson_options,
      AddGeojson True True 14 15 (Url ''https://example.com/missing.geojson'') no_geojson_options,
      SetLayerOpacity ''mgl-extend-raster-1-b'' (Num 0.5),
      SendLayerToBack ''mgl-extend-geojson-2-d'',
      RemoveLayerById ''mgl-extend-raster-1-b'']"

text \<open>\<open>addRaster\<close> asked to put its layer below a layer \<open>nope\<close>, which the style does
  not have.\<close>

definition below_missing_layer :: "operation list" where
  "below_missing_layer =
     [AddRaster True True 10 11 ''https://example.com/{z}/{x}/{y}.png''
        (no_options\<lparr>opt_beforeId := Some ''nope''\<rparr>)]"

section \<open>Facts about the helpers\<close>

lemmas engine_defs =
  getLayer_def getSource_def addSource_def removeSource_def insert_before_def addLayer_def
  removeLayer_def moveLayer_def setLayoutProperty_def setPaintProperty_def

lemmas registry_defs =
  getLayerRegistry_def storeLayerInfo_def removeLayerInfo_def updateLayerVisibility_def
  updateLayerOpacity_def getAllCustomLayers_def getLayerInfoById_def

lemmas example_defs =
  empty_map_def fresh_counters_def no_options_def raster_layer_def raster_record_def
  shared_source_map_def orphan_map_def test_wms_options_def overriding_wms_options_def
  foreign_layer_map_def mapnik_map_def no_geojson_options_def example_operations_def
  below_missing_layer_def




lemma starts_with_append: "starts_with a p \<Longrightarrow> starts_with (a @ b) p"
  by (induction a p rule: starts_with.induct) auto





lemma js_set_acc:
  "set (foldl (\<lambda>acc x. if x \<in> set acc then acc else acc @ [x]) acc xs) = set acc \<union> set xs"
  by (induction xs arbitrary: acc) auto

lemma js_set_distinct_acc:
  "distinct acc \<Longrightarrow> distinct (foldl (\<lambda>acc x. if x \<in> set acc then acc else acc @ [x]) acc xs)"
  by (induction xs arbitrary: acc) auto

lemma set_js_set: "set (js_set xs) = set xs"
  by (simp add: js_set_def js_set_acc)

lemma distinct_js_set: "distinct (js_set xs)"
  by (simp add: js_set_def js_set_distinct_acc)

lemma distinct_singleton: "distinct xs \<Longrightarrow> set xs = {k} \<Longrightarrow> xs = [k]"
proof (cases xs)
  case Nil
  assume "set xs = {k}" with Nil show ?thesis by simp
next
  case (Cons y ys)
  assume d: "distinct xs" and s: "set xs = {k}"
  from s Cons have "y = k" by auto
  moreover from d s Cons have "ys = []" by (cases ys) auto
  ultimately show ?thesis using Cons by simp
qed

lemma js_set_uniform:
  assumes "xs \<noteq> []" "\<forall>x\<in>set xs. x = k"
  shows "js_set xs = [k]"
proof -
  have "set xs = {k}" using assms by (cases xs) auto
  then show ?thesis
    using distinct_singleton [OF distinct_js_set [of xs], of k] by (simp add: set_js_set)
qed

lemma js_set_two:
  assumes "a \<in> set xs" "b \<in> set xs" "a \<noteq> b"
  shows "(case js_set xs of [t] \<Rightarrow> t | _ \<Rightarrow> d) = d"
proof -
  have "a \<in> set (js_set xs)" "b \<in> set (js_set xs)" using assms by (simp_all add: set_js_set)
  with assms(3) show ?thesis
    by (cases "js_set xs" rule: list.exhaust; simp split: list.splits; auto)
qed

section \<open>Facts about the engine calls and the registry\<close>


lemma getLayer_id: "getLayer m i = Some l \<Longrightarrow> l_id l = i"
  unfolding getLayer_def by (auto simp: find_Some_iff)

lemma find_map_id:
  "(\<And>x. l_id (f x) = l_id x) \<Longrightarrow>
     find (\<lambda>l. l_id l = i) (map f xs) = map_option f (find (\<lambda>l. l_id l = i) xs)"
  by (induction xs) auto

lemma getLayer_setPaintProperty:
  "getLayer (setPaintProperty m i k v) j =
     (if v = PNum NaN then getLayer m j
      else map_option (\<lambda>l. if l_id l = i then l\<lparr>l_paint := AList.update k v (l_paint l)\<rparr> else l)
             (getLayer m j))"
  unfolding getLayer_def setPaintProperty_def
  by (simp add: find_map_id)


lemma find_appended:
  "\<forall>x\<in>set xs. l_id x \<noteq> l_id l \<Longrightarrow> find (\<lambda>x. l_id x = l_id l) (xs @ l # ys) = Some l"
  by (induction xs) auto

lemma find_new:
  assumes "\<forall>x\<in>set ls. l_id x \<noteq> l_id l"
  shows "find (\<lambda>x. l_id x = l_id l) (insert_before b l ls) = Some l"
proof -
  have "\<forall>x\<in>set (takeWhile (\<lambda>x. l_id x \<noteq> b) ls). l_id x \<noteq> l_id l"
    using assms by (meson set_takeWhileD)
  then show ?thesis
    unfolding insert_before_def by (rule find_appended)
qed

lemma addLayer_taken:
  assumes "getLayer m (l_id l) = None" "valid" "getSource m (l_source l) = Some s"
    "s_type s = ''vector'' \<longrightarrow> truthy (l_source_layer l) \<noteq> None \<and> l_type l \<noteq> ''raster''"
    "s_type s = ''raster'' \<longrightarrow> l_type l = ''raster''"
    "\<forall>b. truthy before = Some b \<longrightarrow> getLayer m b \<noteq> None"
  shows "getLayer (addLayer valid m l before) (l_id l) = Some l"
proof -
  have new: "\<forall>x\<in>set (style_layers m). l_id x \<noteq> l_id l"
    using assms(1) by (auto simp: getLayer_def find_None_iff)
  show ?thesis
  proof (cases "truthy before")
    case None
    then show ?thesis
      using assms find_appended [OF new, of "[]"] by (auto simp: addLayer_def getLayer_def)
  next
    case (Some b)
    then show ?thesis
      using assms find_new [OF new, of b] by (auto simp: addLayer_def getLayer_def)
  qed
qed



lemma registry_addLayer [simp]: "layer_registry (addLayer valid m l b) = layer_registry m"
  by (simp add: addLayer_def split: option.splits)

lemma registry_moveLayer [simp]: "layer_registry (moveLayer m i b) = layer_registry m"
  by (simp add: moveLayer_def split: option.splits)

lemma registry_setPaintProperty [simp]: "layer_registry (setPaintProperty m i k v) = layer_registry m"
  by (simp add: setPaintProperty_def)

lemma registry_setLayoutProperty [simp]: "layer_registry (setLayoutProperty m i k v) = layer_registry m"
  by (simp add: setLayoutProperty_def)

lemma layers_storeLayerInfo [simp]: "style_layers (storeLayerInfo m lid sid ty opts) = style_layers m"
  by (simp add: storeLayerInfo_def Let_def)

lemma layers_updateLayerOpacity [simp]: "style_layers (updateLayerOpacity m lid v) = style_layers m"
  by (simp add: updateLayerOpacity_def Let_def split: option.splits)

lemma layers_updateLayerVisibility [simp]: "style_layers (updateLayerVisibility m lid v) = style_layers m"
  by (simp add: updateLayerVisibility_def Let_def split: option.splits)




lemma names_map:
  "(\<And>x. l_id (f x) = l_id x) \<Longrightarrow> l_id ` set (map f xs) = l_id ` set xs"
  by (induction xs) auto

lemma names_setPaintProperty [simp]:
  "l_id ` set (style_layers (setPaintProperty m i k v)) = l_id ` set (style_layers m)"
  unfolding setPaintProperty_def by (simp add: names_map del: set_map)

lemma names_setLayoutProperty [simp]:
  "l_id ` set (style_layers (setLayoutProperty m i k v)) = l_id ` set (style_layers m)"
  unfolding setLayoutProperty_def by (simp add: names_map del: set_map)




lemma delete_absent: "map_of al k = None \<Longrightarrow> AList.delete k al = al"
  by (simp add: map_of_eq_None_iff delete_id)




lemma registry_updateLayerOpacity:
  "layer_registry (updateLayerOpacity m lid v) =
     (case map_of (layer_registry m) lid of
        Some r \<Rightarrow> AList.update lid (r\<lparr>opacity := v\<rparr>) (layer_registry m)
      | None \<Rightarrow> layer_registry m)"
  by (simp add: updateLayerOpacity_def getLayerRegistry_def Let_def split: option.splits)

lemma getLayerInfoById_updateLayerVisibility:
  "getLayerInfoById (updateLayerVisibility m lid v) lid =
     map_option (\<lambda>r. r\<lparr>visible := v\<rparr>) (getLayerInfoById m lid)"
  by (simp add: getLayerInfoById_def updateLayerVisibility_def getLayerRegistry_def Let_def update_conv'
      split: option.splits)

lemma getLayerInfoById_cong:
  "layer_registry m' = layer_registry m \<Longrightarrow> getLayerInfoById m' lid = getLayerInfoById m lid"
  by (simp add: getLayerInfoById_def getLayerRegistry_def)

section \<open>Removal and source sharing\<close>

text \<open>
  Claim C1, as the spec states it, is that \<open>removeLayerById\<close> removes the source of the
  record exactly when no other registry record references it. On the map below the
  record \<open>a\<close> is the only record, so no other record references its source \<open>s\<close>; the
  style has a second layer \<open>x\<close> drawn from \<open>s\<close>, the engine refuses to remove a source
  a layer still uses, and after \<open>removeLayerById(map, 'a')\<close> the source is still there.
\<close>

theorem removeLayerById_foreign_layer_counterexample:
  "getLayerInfoById foreign_layer_map ''a'' = Some (raster_record ''a'' ''s'')
   \<and> getAllCustomLayers foreign_layer_map = [raster_record ''a'' ''s'']
   \<and> map fst (style_sources foreign_layer_map) = [''s'']
   \<and> map fst (style_sources (removeLayerById foreign_layer_map ''a'')) = [''s'']
   \<and> map l_id (style_layers (removeLayerById foreign_layer_map ''a'')) = [''x'']
   \<and> getAllCustomLayers (removeLayerById foreign_layer_map ''a'') = []"
  by (simp add: removeLayerById_def registry_defs engine_defs example_defs Let_def)

text \<open>
  Claim C1, amended. For every map state and every \<open>layerId\<close> with a registry record,
  \<open>removeLayerById\<close> leaves the engine's sources as they were when another registry
  record (one with a different \<open>layerId\<close>) references the record's \<open>sourceId\<close> or a
  layer of the style other than \<open>layerId\<close> is drawn from that source, and otherwise
  takes that source, and no other, out of them.
\<close>

theorem removeLayerById_source:
  assumes "getLayerInfoById m lid = Some info"
  shows "style_sources (removeLayerById m lid) =
           (if (\<exists>l\<in>set (getAllCustomLayers m). sourceId l = sourceId info \<and> layerId l \<noteq> lid)
               \<or> (\<exists>l\<in>set (style_layers m). l_id l \<noteq> lid \<and> l_source l = sourceId info)
            then style_sources m
            else AList.delete (sourceId info) (style_sources m))
       \<and> getSource (removeLayerById m lid) (sourceId info) =
           (if (\<exists>l\<in>set (getAllCustomLayers m). sourceId l = sourceId info \<and> layerId l \<noteq> lid)
               \<or> (\<exists>l\<in>set (style_layers m). l_id l \<noteq> lid \<and> l_source l = sourceId info)
            then getSource m (sourceId info)
            else None)"
proof -
  have layers: "style_layers (if getLayer m lid \<noteq> None then removeLayer m lid else m) =
                  filter (\<lambda>l. l_id l \<noteq> lid) (style_layers m)"
    by (auto simp: removeLayer_def getLayer_def find_None_iff filter_id_conv)
  have 1: "style_sources (removeLayerById m lid) =
           (if (\<exists>l\<in>set (getAllCustomLayers m). sourceId l = sourceId info \<and> layerId l \<noteq> lid)
               \<or> (\<exists>l\<in>set (style_layers m). l_id l \<noteq> lid \<and> l_source l = sourceId info)
            then style_sources m
            else AList.delete (sourceId info) (style_sources m))"
  proof (cases "getLayer m lid = None")
    case True
    then have same: "filter (\<lambda>l. l_id l \<noteq> lid) (style_layers m) = style_layers m"
      by (auto simp: getLayer_def find_None_iff filter_id_conv)
    then have "\<And>P. (\<exists>l\<in>set (style_layers m). l_id l \<noteq> lid \<and> P l) = (\<exists>l\<in>set (style_layers m). P l)"
      by (metis (mono_tags, lifting) filter_id_conv)
    then show ?thesis
      using assms True
      by (auto simp: removeLayerById_def Let_def removeSource_def removeLayerInfo_def
          getSource_def getAllCustomLayers_def getLayerRegistry_def getLayerInfoById_def
          filter_empty_conv delete_absent)
  next
    case False
    then show ?thesis
      using assms
      by (auto simp: removeLayerById_def Let_def removeLayer_def removeSource_def removeLayerInfo_def
          getSource_def getAllCustomLayers_def getLayerRegistry_def getLayerInfoById_def
          filter_empty_conv delete_absent)
  qed
  show ?thesis
    unfolding getSource_def 1 by (auto simp: delete_conv')
qed

theorem removeLayerById_source_witness:
  "getLayerInfoById shared_source_map ''a'' = Some (raster_record ''a'' ''s'')
   \<and> style_sources (removeLayerById shared_source_map ''a'') = style_sources shared_source_map
   \<and> getLayerInfoById (removeLayerById shared_source_map ''a'') ''b'' = Some (raster_record ''b'' ''s'')
   \<and> style_sources (removeLayerById (removeLayerById shared_source_map ''a'') ''b'') = []
   \<and> getLayerInfoById foreign_layer_map ''a'' = Some (raster_record ''a'' ''s'')
   \<and> style_sources (removeLayerById foreign_layer_map ''a'') = style_sources foreign_layer_map"
proof -
  have a: "getLayerInfoById shared_source_map ''a'' = Some (raster_record ''a'' ''s'')"
    by (simp add: registry_defs example_defs)
  have r: "layer_registry (removeLayerById shared_source_map ''a'') = [(''b'', raster_record ''b'' ''s'')]"
    by (simp add: removeLayerById_def registry_defs engine_defs example_defs Let_def)
  have l: "style_layers (removeLayerById shared_source_map ''a'') = [raster_layer ''b'' ''s'']"
    by (simp add: removeLayerById_def registry_defs engine_defs example_defs Let_def)
  have b: "getLayerInfoById (removeLayerById shared_source_map ''a'') ''b'' = Some (raster_record ''b'' ''s'')"
    by (simp add: getLayerInfoById_def getLayerRegistry_def r)
  have s: "style_sources (removeLayerById shared_source_map ''a'') = style_sources shared_source_map"
    using removeLayerById_source [OF a]
    by (simp add: getAllCustomLayers_def getLayerRegistry_def example_defs)
  have e: "style_sources (removeLayerById (removeLayerById shared_source_map ''a'') ''b'') = []"
    using removeLayerById_source [OF b]
    by (simp add: getAllCustomLayers_def getLayerRegistry_def r s l) (simp add: example_defs)
  have f: "getLayerInfoById foreign_layer_map ''a'' = Some (raster_record ''a'' ''s'')"
    by (simp add: registry_defs example_defs)
  have g: "style_sources (removeLayerById foreign_layer_map ''a'') = style_sources foreign_layer_map"
    using removeLayerById_source [OF f]
    by (simp add: getAllCustomLayers_def getLayerRegistry_def example_defs)
  from a b s e f g show ?thesis by simp
qed

section \<open>Visibility and opacity\<close>

text \<open>
  Claim C3, as the spec states it, is that \<open>setLayerVisibility\<close> sets the record's
  \<open>visible\<close> field whether or not the engine has the layer. On the map below the
  registry holds a visible record \<open>a\<close>, the engine has no layer \<open>a\<close>, and after
  \<open>setLayerVisibility(map, 'a', false)\<close> the record is still visible.
\<close>

theorem setLayerVisibility_orphan_counterexample:
  "getLayer orphan_map ''a'' = None
   \<and> map_option visible (getLayerInfoById orphan_map ''a'') = Some True
   \<and> map_option visible (getLayerInfoById (setLayerVisibility orphan_map ''a'' False) ''a'') = Some True"
  by (simp add: setLayerVisibility_def getLayer_def getLayerInfoById_def getLayerRegistry_def
      orphan_map_def raster_record_def)

text \<open>
  Claim C3, amended. \<open>setLayerVisibility\<close> sets the record's \<open>visible\<close> field to the
  flag when the engine reports the layer; when the engine reports no layer, the call
  changes nothing at all, and the record keeps the value it had.
\<close>

theorem setLayerVisibility_registry:
  "map_option visible (getLayerInfoById (setLayerVisibility m lid v) lid) =
     (if getLayer m lid = None then map_option visible (getLayerInfoById m lid)
      else map_option (\<lambda>r. v) (getLayerInfoById m lid))
   \<and> (getLayer m lid = None \<longrightarrow> setLayerVisibility m lid v = m)"
  by (simp add: setLayerVisibility_def getLayerInfoById_updateLayerVisibility option.map_comp comp_def
        getLayerInfoById_cong [OF registry_setLayoutProperty])

theorem setLayerVisibility_registry_witness:
  "getLayer shared_source_map ''a'' \<noteq> None
   \<and> map_option visible (getLayerInfoById (setLayerVisibility shared_source_map ''a'' False) ''a'') = Some False
   \<and> getLayer orphan_map ''a'' = None
   \<and> setLayerVisibility orphan_map ''a'' False = orphan_map"
  using setLayerVisibility_registry [of shared_source_map "''a''" False]
    setLayerVisibility_registry [of orphan_map "''a''" False]
  by (simp add: getLayer_def getLayerInfoById_def getLayerRegistry_def example_defs)

lemma getLayer_updateLayerOpacity: "getLayer (updateLayerOpacity m lid v) j = getLayer m j"
  by (simp add: getLayer_def)

text \<open>
  What \<open>setLayerOpacity\<close> does for a number other than NaN when the engine has the
  layer: it stores the clamped value in the layer's registry record (if it has one)
  and sets the opacity paint property of the layer's type (both of them for a symbol
  layer) to the clamped value, which is 0 for an input below 0 (\<open>-Infinity\<close> too), 1
  for an input above 1 (\<open>Infinity\<close> too) and the input itself in between; and
  \<open>clamp(v,min,max)\<close> is \<open>Math.min(Math.max(v,min),max)\<close>.
\<close>

lemma clamp_unit:
  "clamp v (Num 0) (Num 1) =
     (if v = NaN then NaN else if js_less v (Num 0) then Num 0
      else if js_less (Num 1) v then Num 1 else v)"
  by (cases v) (auto simp: clamp_def Math_max_def Math_min_def)

lemma setLayerOpacity_numbers:
  assumes "getLayer m lid = Some layer" "v \<noteq> NaN"
  shows "map_option opacity (getLayerInfoById (setLayerOpacity m lid v) lid) =
           map_option (\<lambda>r. clamp v (Num 0) (Num 1)) (getLayerInfoById m lid)
       \<and> (l_type layer = ''fill'' \<longrightarrow>
            getPaintProperty (setLayerOpacity m lid v) lid ''fill-opacity''
              = Some (PNum (clamp v (Num 0) (Num 1))))
       \<and> (l_type layer = ''line'' \<longrightarrow>
            getPaintProperty (setLayerOpacity m lid v) lid ''line-opacity''
              = Some (PNum (clamp v (Num 0) (Num 1))))
       \<and> (l_type layer = ''circle'' \<longrightarrow>
            getPaintProperty (setLayerOpacity m lid v) lid ''circle-opacity''
              = Some (PNum (clamp v (Num 0) (Num 1))))
       \<and> (l_type layer = ''raster'' \<longrightarrow>
            getPaintProperty (setLayerOpacity m lid v) lid ''raster-opacity''
              = Some (PNum (clamp v (Num 0) (Num 1))))
       \<and> (l_type layer = ''symbol'' \<longrightarrow>
            getPaintProperty (setLayerOpacity m lid v) lid ''icon-opacity''
              = Some (PNum (clamp v (Num 0) (Num 1)))
            \<and> getPaintProperty (setLayerOpacity m lid v) lid ''text-opacity''
              = Some (PNum (clamp v (Num 0) (Num 1))))
       \<and> (js_less v (Num 0) \<longrightarrow> clamp v (Num 0) (Num 1) = Num 0)
       \<and> (js_less (Num 1) v \<longrightarrow> clamp v (Num 0) (Num 1) = Num 1)
       \<and> (\<not> js_less v (Num 0) \<and> \<not> js_less (Num 1) v \<longrightarrow> clamp v (Num 0) (Num 1) = v)
       \<and> clamp x lo hi = Math_min (Math_max x lo) hi"
proof -
  have c: "clamp v (Num 0) (Num 1) \<noteq> NaN"
    using assms(2) by (simp add: clamp_unit)
  have registry: "map_option opacity (getLayerInfoById (setLayerOpacity m lid v) lid) =
           map_option (\<lambda>r. clamp v (Num 0) (Num 1)) (getLayerInfoById m lid)"
    using assms(1)
    by (simp add: setLayerOpacity_def Let_def getLayerInfoById_def getLayerRegistry_def
        registry_updateLayerOpacity update_conv' split: option.splits)
  have engine: "(l_type layer = ''fill'' \<longrightarrow>
            getPaintProperty (setLayerOpacity m lid v) lid ''fill-opacity''
              = Some (PNum (clamp v (Num 0) (Num 1))))
       \<and> (l_type layer = ''line'' \<longrightarrow>
            getPaintProperty (setLayerOpacity m lid v) lid ''line-opacity''
              = Some (PNum (clamp v (Num 0) (Num 1))))
       \<and> (l_type layer = ''circle'' \<longrightarrow>
            getPaintProperty (setLayerOpacity m lid v) lid ''circle-opacity''
              = Some (PNum (clamp v (Num 0) (Num 1))))
       \<and> (l_type layer = ''raster'' \<longrightarrow>
            getPaintProperty (setLayerOpacity m lid v) lid ''raster-opacity''
              = Some (PNum (clamp v (Num 0) (Num 1))))
       \<and> (l_type layer = ''symbol'' \<longrightarrow>
            getPaintProperty (setLayerOpacity m lid v) lid ''icon-opacity''
              = Some (PNum (clamp v (Num 0) (Num 1)))
            \<and> getPaintProperty (setLayerOpacity m lid v) lid ''text-opacity''
              = Some (PNum (clamp v (Num 0) (Num 1))))"
    using assms(1) getLayer_id [OF assms(1)] c
    by (simp add: setLayerOpacity_def Let_def getPaintProperty_def getLayer_updateLayerOpacity
        getLayer_setPaintProperty update_conv')
  have range: "(js_less v (Num 0) \<longrightarrow> clamp v (Num 0) (Num 1) = Num 0)
       \<and> (js_less (Num 1) v \<longrightarrow> clamp v (Num 0) (Num 1) = Num 1)
       \<and> (\<not> js_less v (Num 0) \<and> \<not> js_less (Num 1) v \<longrightarrow> clamp v (Num 0) (Num 1) = v)"
    using assms(2) by (cases v) (auto simp: clamp_unit)
  have "clamp x lo hi = Math_min (Math_max x lo) hi"
    by (simp add: clamp_def)
  with registry engine range show ?thesis by blast
qed

text \<open>
  Claim C7 says that \<open>setLayerOpacity\<close> clamps every opacity input into [0,1] and
  records the clamped value. The call \<open>setLayerOpacity(map, 'a', NaN)\<close> on a map whose
  engine has the layer \<open>a\<close>: \<open>Math.min(Math.max(NaN, 0), 1)\<close> is NaN, the engine refuses
  NaN as a paint value and keeps the opacity 1 the layer had, and the registry record
  of \<open>a\<close> is given the opacity NaN, which is not in [0,1] and is not what the engine
  draws the layer with.
\<close>

theorem setLayerOpacity_NaN:
  "getLayer shared_source_map ''a'' = Some (raster_layer ''a'' ''s'')
   \<and> clamp NaN (Num 0) (Num 1) = NaN
   \<and> map_option opacity (getLayerInfoById shared_source_map ''a'') = Some (Num 1)
   \<and> map_option opacity (getLayerInfoById (setLayerOpacity shared_source_map ''a'' NaN) ''a'') = Some NaN
   \<and> getPaintProperty (setLayerOpacity shared_source_map ''a'' NaN) ''a'' ''raster-opacity''
       = Some (PNum (Num 1))"
  by (simp add: setLayerOpacity_def clamp_def Math_max_def Math_min_def Let_def getPaintProperty_def
      registry_defs engine_defs example_defs)

text \<open>
  Claim C10. When the engine reports no layer for the identifier, \<open>setLayerOpacity\<close>
  returns the map exactly as it was: no paint property is set and the registry, with
  any record it holds for that identifier, is untouched.
\<close>

theorem setLayerOpacity_no_layer:
  "getLayer m lid = None \<Longrightarrow> setLayerOpacity m lid v = m"
  by (simp add: setLayerOpacity_def)

theorem setLayerOpacity_no_layer_witness:
  "getLayer orphan_map ''a'' = None
   \<and> setLayerOpacity orphan_map ''a'' (Num 0.5) = orphan_map
   \<and> map_option opacity (getLayerInfoById (setLayerOpacity orphan_map ''a'' (Num 0.5)) ''a'') = Some (Num 1)"
proof -
  have h: "getLayer orphan_map ''a'' = None"
    by (simp add: getLayer_def orphan_map_def)
  show ?thesis
    using h setLayerOpacity_no_layer [OF h, of "Num 0.5"]
    by (simp add: getLayerInfoById_def getLayerRegistry_def orphan_map_def raster_record_def)
qed

section \<open>Identifiers\<close>

lemma numbered_Cons:
  "numbered ((p, t) # calls) first = id_format p first t # numbered calls (Suc first)"
  unfolding numbered_def by (simp add: upt_rec)

lemma generateLayerId_eq:
  "generateLayerId p t c =
     (id_format p (Suc (layerCounter c)) t, c\<lparr>layerCounter := Suc (layerCounter c)\<rparr>)"
  by (simp add: generateLayerId_def id_format_def Let_def)

lemma generateSourceId_eq:
  "generateSourceId p t c =
     (id_format p (Suc (sourceCounter c)) t, c\<lparr>sourceCounter := Suc (sourceCounter c)\<rparr>)"
  by (simp add: generateSourceId_def id_format_def Let_def)

lemma generator_run_layer_ids:
  "Reset \<notin> set cs \<Longrightarrow>
     layer_ids (fst (generator_run cs c)) = numbered (layer_calls cs) (Suc (layerCounter c))"
proof (induction cs arbitrary: c)
  case Nil
  show ?case by (simp add: layer_ids_def numbered_def)
next
  case (Cons a cs)
  then have IH: "\<And>c. layer_ids (fst (generator_run cs c)) = numbered (layer_calls cs) (Suc (layerCounter c))"
    by simp
  show ?case
  proof (cases a)
    case (GenLayer p t)
    then show ?thesis
      using IH [of "c\<lparr>layerCounter := Suc (layerCounter c)\<rparr>"]
      by (simp add: generateLayerId_eq numbered_Cons layer_ids_def case_prod_beta)
  next
    case (GenSource p t)
    then show ?thesis
      using IH [of "c\<lparr>sourceCounter := Suc (sourceCounter c)\<rparr>"]
      by (simp add: generateSourceId_eq layer_ids_def case_prod_beta)
  next
    case Reset
    with Cons.prems show ?thesis by simp
  qed
qed

lemma generator_run_source_ids:
  "Reset \<notin> set cs \<Longrightarrow>
     source_ids (fst (generator_run cs c)) = numbered (source_calls cs) (Suc (sourceCounter c))"
proof (induction cs arbitrary: c)
  case Nil
  show ?case by (simp add: source_ids_def numbered_def)
next
  case (Cons a cs)
  then have IH: "\<And>c. source_ids (fst (generator_run cs c)) = numbered (source_calls cs) (Suc (sourceCounter c))"
    by simp
  show ?case
  proof (cases a)
    case (GenLayer p t)
    then show ?thesis
      using IH [of "c\<lparr>layerCounter := Suc (layerCounter c)\<rparr>"]
      by (simp add: generateLayerId_eq source_ids_def case_prod_beta)
  next
    case (GenSource p t)
    then show ?thesis
      using IH [of "c\<lparr>sourceCounter := Suc (sourceCounter c)\<rparr>"]
      by (simp add: generateSourceId_eq numbered_Cons source_ids_def case_prod_beta)
  next
    case Reset
    with Cons.prems show ?thesis by simp
  qed
qed

text \<open>
  Claim C8. Within one counter epoch (a sequence of calls with no reset in it) the
  layer identifiers handed out are \<open>mgl-extend-{category}-{n}-{suffix}\<close> with \<open>n\<close>
  running through \<open>layerCounter + 1, layerCounter + 2, ...\<close> in the order of the calls
  to \<open>generateLayerId\<close>, whatever calls to \<open>generateSourceId\<close> come in between, and
  likewise for the source identifiers and \<open>sourceCounter\<close>; the suffix is the clock
  reading in base 36. After \<open>resetCounters\<close> the next identifier of each kind has
  \<open>n = 1\<close>. (The counters are natural numbers here; a JavaScript number stops
  counting at \<open>2^53\<close>.)
\<close>

theorem id_generator_epoch:
  "Reset \<notin> set cs \<Longrightarrow>
     layer_ids (fst (generator_run cs c)) = numbered (layer_calls cs) (layerCounter c + 1)
     \<and> source_ids (fst (generator_run cs c)) = numbered (source_calls cs) (sourceCounter c + 1)
     \<and> fst (generateLayerId p t (resetCounters c')) = id_format p 1 t
     \<and> fst (generateSourceId p t (resetCounters c')) = id_format p 1 t"
  by (simp add: generator_run_layer_ids generator_run_source_ids generateLayerId_eq
      generateSourceId_eq resetCounters_def)

theorem id_generator_epoch_witness:
  "Reset \<notin> set [GenLayer ''geojson'' 100, GenSource ''geojson'' 100, GenLayer ''wms'' 200]
   \<and> layer_ids (fst (generator_run
        [GenLayer ''geojson'' 100, GenSource ''geojson'' 100, GenLayer ''wms'' 200] fresh_counters))
      = [''mgl-extend-geojson-1-2s'', ''mgl-extend-wms-2-5k'']
   \<and> source_ids (fst (generator_run
        [GenLayer ''geojson'' 100, GenSource ''geojson'' 100, GenLayer ''wms'' 200] fresh_counters))
      = [''mgl-extend-geojson-1-2s'']
   \<and> fst (generateLayerId ''layer'' 100 (resetCounters \<lparr>layerCounter = 2, sourceCounter = 1\<rparr>))
      = ''mgl-extend-layer-1-2s''"
proof -
  have h: "Reset \<notin> set [GenLayer ''geojson'' 100, GenSource ''geojson'' 100, GenLayer ''wms'' 200]"
    by simp
  show ?thesis
    using h id_generator_epoch [OF h, of fresh_counters "''layer''" 100
        "\<lparr>layerCounter = 2, sourceCounter = 1\<rparr>"]
    by (simp add: numbered_def id_format_def decimal_def upt_rec digit_char_def fresh_counters_def)
qed

section \<open>The WMS tile URL\<close>












section \<open>The layer kind of GeoJSON data\<close>

lemma by_name_standard:
  "by_name (Some ''Point'') = Some Point" "by_name (Some ''MultiPoint'') = Some Point"
  "by_name (Some ''LineString'') = Some LineString" "by_name (Some ''MultiLineString'') = Some LineString"
  "by_name (Some ''Polygon'') = Some Polygon" "by_name (Some ''MultiPolygon'') = Some Polygon"
  by (simp_all add: by_name_def)

lemma family_of_type_cases:
  assumes "family_of_type t = Some c"
  shows "(t = ''Point'' \<or> t = ''MultiPoint'') \<and> c = Point
       \<or> (t = ''LineString'' \<or> t = ''MultiLineString'') \<and> c = LineString
       \<or> (t = ''Polygon'' \<or> t = ''MultiPolygon'') \<and> c = Polygon"
proof -
  have "family_of_type t =
     (if t = ''Point'' \<or> t = ''MultiPoint'' then Some Point
      else if t = ''LineString'' \<or> t = ''MultiLineString'' then Some LineString
      else if t = ''Polygon'' \<or> t = ''MultiPolygon'' then Some Polygon
      else None)"
    unfolding family_of_type_def by (simp only: list.set insert_iff empty_iff simp_thms)
  with assms show ?thesis
    by (metis option.distinct(1) option.inject)
qed

lemma by_name_family: "family_of_type t = Some c \<Longrightarrow> by_name (Some t) = Some c"
  using family_of_type_cases [of t c] by_name_standard by blast

lemma detect_geometry:
  assumes "family_of_type (gtype g) = Some c"
  shows "detectGeometryType (GeometryObject g) = c" "detectGeometryType (Feature (Some g)) = c"
  using by_name_family [OF assms] by (simp_all add: detectGeometryType_def nullish_def)

lemma detect_uniform:
  assumes "fs \<noteq> []" "\<forall>f\<in>set fs. \<exists>g. f = Some g \<and> family_of_type (gtype g) = Some c"
  shows "detectGeometryType (FeatureCollection fs) = c"
proof -
  have "\<forall>x\<in>set (map (\<lambda>f. nullish (by_name (map_option gtype f)) Mixed) fs). x = c"
    using assms(2) by (auto simp: nullish_def dest!: by_name_family)
  moreover have "map (\<lambda>f. nullish (by_name (map_option gtype f)) Mixed) fs \<noteq> []"
    using assms(1) by simp
  ultimately have "js_set (map (\<lambda>f. nullish (by_name (map_option gtype f)) Mixed) fs) = [c]"
    by (rule js_set_uniform [rotated])
  then show ?thesis
    by (simp add: detectGeometryType_def)
qed

lemma detect_mixed:
  assumes "Some g1 \<in> set fs" "Some g2 \<in> set fs"
    "family_of_type (gtype g1) = Some c1" "family_of_type (gtype g2) = Some c2" "c1 \<noteq> c2"
  shows "detectGeometryType (FeatureCollection fs) = Mixed"
proof -
  let ?cls = "\<lambda>f. nullish (by_name (map_option gtype f)) Mixed"
  have "?cls (Some g1) = c1" "?cls (Some g2) = c2"
    using by_name_family [OF assms(3)] by_name_family [OF assms(4)] by (simp_all add: nullish_def)
  then have "c1 \<in> set (map ?cls fs)" "c2 \<in> set (map ?cls fs)"
    using assms(1,2) by force+
  from js_set_two [OF this assms(5)] show ?thesis
    by (simp add: detectGeometryType_def)
qed

lemma default_is_spec: "getDefaultLayerType c = spec_layer_kind c"
  by (cases c) simp_all

text \<open>A creation call whose source and layer identifiers are new to the style, whose
  \<open>beforeId\<close>, if it gives one, names a layer of the style, and whose source and layer
  pass the engine's validation: the source is added and then the layer.\<close>

lemma source_then_layer:
  assumes "getSource m sid = None" "getLayer m (l_id l) = None" "l_source l = sid"
    "s_type src = ''vector'' \<longrightarrow> truthy (l_source_layer l) \<noteq> None \<and> l_type l \<noteq> ''raster''"
    "s_type src = ''raster'' \<longrightarrow> l_type l = ''raster''"
    "\<forall>b. truthy before = Some b \<longrightarrow> getLayer m b \<noteq> None"
  shows "addSource True m sid src = Inr (m\<lparr>style_sources := style_sources m @ [(sid, src)]\<rparr>)"
    and "getLayer (addLayer True (m\<lparr>style_sources := style_sources m @ [(sid, src)]\<rparr>) l before) (l_id l)
           = Some l"
proof -
  let ?m1 = "m\<lparr>style_sources := style_sources m @ [(sid, src)]\<rparr>"
  show "addSource True m sid src = Inr ?m1"
    using assms(1) by (simp add: addSource_def)
  have layers: "getLayer ?m1 i = getLayer m i" for i
    by (simp add: getLayer_def)
  have "getSource ?m1 (l_source l) = Some src"
    using assms(1,3) by (simp add: getSource_def map_add_def split: option.splits)
  then show "getLayer (addLayer True ?m1 l before) (l_id l) = Some l"
    using assms(2,4,5,6) by (intro addLayer_taken) (simp_all add: layers)
qed

lemma addGeojson_registers:
  assumes "creation_ids ''geojson'' t1 t2 opts cs = (sid, lid, cs')"
    "getSource m sid = None" "getLayer m lid = None"
    "\<forall>b. truthy (opt_beforeId opts) = Some b \<longrightarrow> getLayer m b \<noteq> None"
    "(case arg of Url u \<Rightarrow> fetch u | Data g \<Rightarrow> Some g) = Some d"
  shows "\<exists>m'. addGeojson fetch True True t1 t2 arg opts (cs, m) = Inr (lid, (cs', m'))
            \<and> map_option l_type (getLayer m' lid) = Some (kind_name (geojsonLayerType opts d))
            \<and> map_option kind (getLayerInfoById m' lid) = Some ''geojson''"
proof -
  let ?src = "\<lparr>s_type = ''geojson'', s_tiles = [], s_url = None\<rparr>"
  let ?l = "\<lparr>l_id = lid, l_type = kind_name (geojsonLayerType opts d), l_source = sid,
             l_source_layer = None,
             l_paint = geojsonPaint opts (geojsonLayerType opts d), l_layout = []\<rparr>"
  let ?m1 = "m\<lparr>style_sources := style_sources m @ [(sid, ?src)]\<rparr>"
  let ?m' = "storeLayerInfo (addLayer True ?m1 ?l (opt_beforeId opts)) lid sid ''geojson''
               (GeojsonOptions opts)"
  have s: "addSource True m sid ?src = Inr ?m1"
    using assms(2,3,4) by (intro source_then_layer(1) [of m sid ?l]) simp_all
  have l: "getLayer (addLayer True ?m1 ?l (opt_beforeId opts)) (l_id ?l) = Some ?l"
    using assms(2,3,4) by (intro source_then_layer(2)) simp_all
  have "addGeojson fetch True True t1 t2 arg opts (cs, m) = Inr (lid, (cs', ?m'))"
    using assms(1,5) s by (simp add: addGeojson_def Let_def)
  moreover have "map_option l_type (getLayer ?m' lid) = Some (kind_name (geojsonLayerType opts d))"
    using l by (simp add: getLayer_def)
  moreover have "map_option kind (getLayerInfoById ?m' lid) = Some ''geojson''"
    by (simp add: getLayerInfoById_def getLayerRegistry_def storeLayerInfo_def Let_def update_conv')
  ultimately show ?thesis by blast
qed

text \<open>
  Claim C9. When the caller gives no \<open>type\<close>, the layer kind \<open>addGeojson\<close> chooses is
  \<open>circle\<close> for a geometry of the Point family (\<open>Point\<close>, \<open>MultiPoint\<close>), \<open>line\<close> for
  the Line family (\<open>LineString\<close>, \<open>MultiLineString\<close>) and \<open>fill\<close> for the Polygon family
  (\<open>Polygon\<close>, \<open>MultiPolygon\<close>), whether the data is the geometry itself, a feature
  with that geometry, or a non-empty feature collection whose features are all of that
  family; a feature collection with features of two different families gets \<open>fill\<close>.
  And the call registers a layer of the chosen kind: given data (inline, or fetched
  from a URL), a source and a layer that pass the engine's validation, identifiers
  (the caller's or generated ones) that are new to the style, and a \<open>beforeId\<close> that
  is absent or names a layer of the style, \<open>addGeojson\<close> returns the layer identifier,
  the engine then has a layer under it whose type is the chosen kind, and the registry
  has a record for it.
\<close>

theorem addGeojson_layer_kind:
  assumes "opt_type opts = None"
  shows "(family_of_type (gtype g) = Some c \<longrightarrow>
            geojsonLayerType opts (GeometryObject g) = spec_layer_kind c
            \<and> geojsonLayerType opts (Feature (Some g)) = spec_layer_kind c)
       \<and> (fs \<noteq> [] \<and> (\<forall>f\<in>set fs. \<exists>g'. f = Some g' \<and> family_of_type (gtype g') = Some c) \<longrightarrow>
            geojsonLayerType opts (FeatureCollection fs) = spec_layer_kind c)
       \<and> (Some g1 \<in> set fs \<and> Some g2 \<in> set fs
            \<and> family_of_type (gtype g1) = Some c1 \<and> family_of_type (gtype g2) = Some c2
            \<and> c1 \<noteq> c2 \<longrightarrow>
            geojsonLayerType opts (FeatureCollection fs) = Fill)
       \<and> (creation_ids ''geojson'' t1 t2 opts cs = (sid, lid, cs')
            \<and> getSource m sid = None \<and> getLayer m lid = None
            \<and> (\<forall>b. truthy (opt_beforeId opts) = Some b \<longrightarrow> getLayer m b \<noteq> None)
            \<and> (arg = Data d \<or> (\<exists>u. arg = Url u \<and> fetch u = Some d)) \<longrightarrow>
            (\<exists>m'. addGeojson fetch True True t1 t2 arg opts (cs, m) = Inr (lid, (cs', m'))
               \<and> map_option l_type (getLayer m' lid) = Some (kind_name (geojsonLayerType opts d))
               \<and> map_option kind (getLayerInfoById m' lid) = Some ''geojson''))"
proof -
  have kind: "geojsonLayerType opts data = spec_layer_kind (detectGeometryType data)" for data
    using assms by (simp add: geojsonLayerType_def default_is_spec)
  have single: "geojsonLayerType opts (GeometryObject g) = spec_layer_kind c
      \<and> geojsonLayerType opts (Feature (Some g)) = spec_layer_kind c"
    if "family_of_type (gtype g) = Some c"
    using detect_geometry [OF that] by (simp add: kind)
  have uniform: "geojsonLayerType opts (FeatureCollection fs) = spec_layer_kind c"
    if "fs \<noteq> [] \<and> (\<forall>f\<in>set fs. \<exists>g'. f = Some g' \<and> family_of_type (gtype g') = Some c)"
    using detect_uniform [of fs c] that by (simp add: kind)
  have mixed: "geojsonLayerType opts (FeatureCollection fs) = Fill"
    if "Some g1 \<in> set fs \<and> Some g2 \<in> set fs
            \<and> family_of_type (gtype g1) = Some c1 \<and> family_of_type (gtype g2) = Some c2
            \<and> c1 \<noteq> c2"
    using detect_mixed [of g1 fs g2 c1 c2] that by (simp add: kind)
  have engine: "\<exists>m'. addGeojson fetch True True t1 t2 arg opts (cs, m) = Inr (lid, (cs', m'))
               \<and> map_option l_type (getLayer m' lid) = Some (kind_name (geojsonLayerType opts d))
               \<and> map_option kind (getLayerInfoById m' lid) = Some ''geojson''"
    if h: "creation_ids ''geojson'' t1 t2 opts cs = (sid, lid, cs')
            \<and> getSource m sid = None \<and> getLayer m lid = None
            \<and> (\<forall>b. truthy (opt_beforeId opts) = Some b \<longrightarrow> getLayer m b \<noteq> None)
            \<and> (arg = Data d \<or> (\<exists>u. arg = Url u \<and> fetch u = Some d))"
  proof -
    from h have "(case arg of Url u \<Rightarrow> fetch u | Data g \<Rightarrow> Some g) = Some d"
      by auto
    with h show ?thesis
      by (intro addGeojson_registers [where sid = sid]) simp_all
  qed
  show ?thesis
    using single uniform mixed engine by blast
qed

theorem addGeojson_layer_kind_witness:
  "opt_type no_geojson_options = None
   \<and> geojsonLayerType no_geojson_options (FeatureCollection [Some (Geometry ''Point'')]) = Circle
   \<and> geojsonLayerType no_geojson_options (Feature (Some (Geometry ''Polygon''))) = Fill
   \<and> geojsonLayerType no_geojson_options (GeometryObject (Geometry ''LineString'')) = Line
   \<and> geojsonLayerType no_geojson_options
        (FeatureCollection [Some (Geometry ''Point''), Some (Geometry ''LineString'')]) = Fill
   \<and> creation_ids ''geojson'' 12 13 no_geojson_options fresh_counters =
        (''mgl-extend-geojson-1-c'', ''mgl-extend-geojson-1-d'',
         \<lparr>layerCounter = 1, sourceCounter = 1\<rparr>)
   \<and> (\<exists>m'. addGeojson Map.empty True True 12 13
              (Data (FeatureCollection [Some (Geometry ''Point'')])) no_geojson_options
              (fresh_counters, empty_map)
            = Inr (''mgl-extend-geojson-1-d'', (\<lparr>layerCounter = 1, sourceCounter = 1\<rparr>, m'))
          \<and> map_option l_type (getLayer m' ''mgl-extend-geojson-1-d'') = Some ''circle''
          \<and> map_option kind (getLayerInfoById m' ''mgl-extend-geojson-1-d'') = Some ''geojson'')"
proof -
  have h: "opt_type no_geojson_options = None"
    by (simp add: no_geojson_options_def)
  have f: "family_of_type ''Point'' = Some Point" "family_of_type ''Polygon'' = Some Polygon"
    "family_of_type ''LineString'' = Some LineString"
    by (simp_all add: family_of_type_def)
  have ids: "creation_ids ''geojson'' 12 13 no_geojson_options fresh_counters =
        (''mgl-extend-geojson-1-c'', ''mgl-extend-geojson-1-d'',
         \<lparr>layerCounter = 1, sourceCounter = 1\<rparr>)"
    by (simp add: creation_ids_def id_or_def truthy_def generateSourceId_def generateLayerId_def
        Let_def no_geojson_options_def fresh_counters_def decimal_def digit_char_def)
  have new: "getSource empty_map ''mgl-extend-geojson-1-c'' = None"
    "getLayer empty_map ''mgl-extend-geojson-1-d'' = None"
    "truthy (opt_beforeId no_geojson_options) = None"
    by (simp_all add: getSource_def getLayer_def empty_map_def truthy_def no_geojson_options_def)
  note point = addGeojson_layer_kind [OF h, where g = "Geometry ''Point''" and c = Point
      and fs = "[Some (Geometry ''Point'')]" and ?t1.0 = 12 and ?t2.0 = 13 and cs = fresh_counters
      and sid = "''mgl-extend-geojson-1-c''" and lid = "''mgl-extend-geojson-1-d''"
      and cs' = "\<lparr>layerCounter = 1, sourceCounter = 1\<rparr>" and m = empty_map
      and arg = "Data (FeatureCollection [Some (Geometry ''Point'')])"
      and d = "FeatureCollection [Some (Geometry ''Point'')]" and fetch = Map.empty
      and ?g1.0 = "Geometry ''Point''" and ?g2.0 = "Geometry ''Point''"
      and ?c1.0 = Point and ?c2.0 = Point]
  have kinds: "geojsonLayerType no_geojson_options (FeatureCollection [Some (Geometry ''Point'')]) = Circle
   \<and> geojsonLayerType no_geojson_options (Feature (Some (Geometry ''Polygon''))) = Fill
   \<and> geojsonLayerType no_geojson_options (GeometryObject (Geometry ''LineString'')) = Line
   \<and> geojsonLayerType no_geojson_options
        (FeatureCollection [Some (Geometry ''Point''), Some (Geometry ''LineString'')]) = Fill"
    using addGeojson_layer_kind [OF h, of "Geometry ''Polygon''" Polygon "[Some (Geometry ''Point'')]"]
      addGeojson_layer_kind [OF h, of "Geometry ''LineString''" LineString
        "[Some (Geometry ''Point''), Some (Geometry ''LineString'')]" "Geometry ''Point''"
        "Geometry ''LineString''" Point LineString]
      point
    by (simp add: f)
  have "\<exists>m'. addGeojson Map.empty True True 12 13
              (Data (FeatureCollection [Some (Geometry ''Point'')])) no_geojson_options
              (fresh_counters, empty_map)
            = Inr (''mgl-extend-geojson-1-d'', (\<lparr>layerCounter = 1, sourceCounter = 1\<rparr>, m'))
          \<and> map_option l_type (getLayer m' ''mgl-extend-geojson-1-d'') = Some ''circle''
          \<and> map_option kind (getLayerInfoById m' ''mgl-extend-geojson-1-d'') = Some ''geojson''"
    using point [THEN conjunct2, THEN conjunct2, THEN conjunct2] ids new kinds
    by simp
  with h ids kinds show ?thesis by blast
qed

section \<open>Basemaps\<close>

lemma lookup_undefined:
  "name \<notin> set getBasemapNames \<Longrightarrow> name \<notin> set Object_prototype_names \<Longrightarrow>
     getBasemapDefinition name = Undefined"
proof -
  assume a: "name \<notin> set getBasemapNames" and b: "name \<notin> set Object_prototype_names"
  from a have "map_of basemaps name = None"
    by (simp add: map_of_eq_None_iff getBasemapNames_def)
  with b show ?thesis
    by (simp add: getBasemapDefinition_def)
qed

lemma addBasemap_unknown:
  assumes "name \<notin> set getBasemapNames" "name \<notin> set Object_prototype_names"
  shows "addBasemap hidpi m name =
     Inl (Error (''Unknown basemap: '' @ name @ ''. Available basemaps: ''
                   @ join '', '' getBasemapNames), m)"
  using lookup_undefined [OF assms] by (simp add: addBasemap_def)

lemma InvalidBasemap_unknown:
  "''InvalidBasemap'' \<notin> set getBasemapNames" "''InvalidBasemap'' \<notin> set Object_prototype_names"
  by (simp_all add: getBasemapNames_def basemaps_def entry_def Object_prototype_names_def)

text \<open>
  Claim C5, as the spec states it, is that activating a name absent from the catalog
  throws an error with the code \<open>UNKNOWN_BASEMAP\<close> and a detail mapping. For
  \<open>InvalidBasemap\<close>, the name the repository's own test uses, \<open>addBasemap\<close> and
  \<open>setBasemap\<close> throw an error that has neither a code nor a detail mapping.
\<close>

theorem addBasemap_code_counterexample:
  "''InvalidBasemap'' \<notin> set getBasemapNames
   \<and> map_option error_code (thrown (addBasemap False mapnik_map ''InvalidBasemap'')) = Some None
   \<and> map_option error_details (thrown (addBasemap False mapnik_map ''InvalidBasemap'')) = Some None
   \<and> map_option error_code (thrown (setBasemap False mapnik_map ''InvalidBasemap'')) = Some None"
  by (simp add: InvalidBasemap_unknown addBasemap_unknown setBasemap_def thrown_def)

text \<open>
  Claim C5, amended. For every name that is absent from the catalog and is not the name
  of a property objects inherit, \<open>addBasemap\<close> and \<open>setBasemap\<close> throw a plain \<open>Error\<close>
  (no code, no detail mapping) whose message lists all valid basemap names, before
  anything on the map has changed. The error with code \<open>UNKNOWN_BASEMAP\<close>, whose detail
  mapping holds the name and the full list of valid names, is what the separate
  \<open>validateBasemapName\<close> throws, for every name absent from the catalog.
\<close>

theorem unknown_basemap_errors:
  "(name \<notin> set getBasemapNames \<and> name \<notin> set Object_prototype_names \<longrightarrow>
      addBasemap hidpi m name =
        Inl (Error (''Unknown basemap: '' @ name @ ''. Available basemaps: ''
                      @ join '', '' getBasemapNames), m)
      \<and> setBasemap hidpi m name = addBasemap hidpi m name)
   \<and> (name \<notin> set getBasemapNames \<longrightarrow>
      validateBasemapName name =
        Inl (MapExtendError
               (''Unknown basemap: '' @ name @ ''. Valid options: '' @ join '', '' getBasemapNames)
               ''UNKNOWN_BASEMAP''
               [(''name'', DStr name), (''validNames'', DList getBasemapNames)]))"
  by (simp add: addBasemap_unknown setBasemap_def validateBasemapName_def)

theorem unknown_basemap_errors_witness:
  "''InvalidBasemap'' \<notin> set getBasemapNames
   \<and> ''InvalidBasemap'' \<notin> set Object_prototype_names
   \<and> map_option snd (case addBasemap False mapnik_map ''InvalidBasemap'' of
                        Inl x \<Rightarrow> Some x | Inr y \<Rightarrow> None) = Some mapnik_map
   \<and> map_option error_code
        (case validateBasemapName ''InvalidBasemap'' of Inl e \<Rightarrow> Some e | Inr u \<Rightarrow> None)
      = Some (Some ''UNKNOWN_BASEMAP'')"
  using unknown_basemap_errors [of "''InvalidBasemap''" False mapnik_map]
  by (simp add: InvalidBasemap_unknown)

text \<open>
  Claim C6 says that activating a name absent from the catalog throws and leaves the
  active basemap as it was. The call \<open>setBasemap(map, 'constructor')\<close> on a map that
  has \<open>OpenStreetMap.Mapnik\<close> active: \<open>constructor\<close> is absent from the catalog, yet
  \<open>basemaps['constructor']\<close> is the function objects inherit under that name, which is
  truthy, so \<open>addBasemap\<close> goes past its check \<open>if (!definition)\<close>, removes the active
  basemap's layer and source and resets the tracked name, and only then throws, a
  \<open>TypeError\<close>, when \<open>buildTileUrls\<close> finds no \<open>url\<close>. The map is left with no basemap
  at all.
\<close>

theorem setBasemap_constructor:
  "''constructor'' \<notin> set getBasemapNames
   \<and> validateBasemapName ''constructor'' \<noteq> Inr ()
   \<and> getBasemap mapnik_map = Some ''OpenStreetMap.Mapnik''
   \<and> getLayer mapnik_map BASEMAP_LAYER_ID \<noteq> None
   \<and> getSource mapnik_map BASEMAP_SOURCE_ID \<noteq> None
   \<and> setBasemap False mapnik_map ''constructor'' =
        Inl (TypeError ''Cannot read properties of undefined'', empty_map)
   \<and> getBasemap empty_map = None
   \<and> getLayer empty_map BASEMAP_LAYER_ID = None
   \<and> getSource empty_map BASEMAP_SOURCE_ID = None"
proof -
  have 1: "''constructor'' \<notin> set getBasemapNames"
    by (simp add: getBasemapNames_def basemaps_def entry_def)
  have 2: "getBasemapDefinition ''constructor'' = Inherited"
    by (simp add: getBasemapDefinition_def basemaps_def entry_def Object_prototype_names_def)
  have 3: "removeBasemap mapnik_map = empty_map"
    by (simp add: removeBasemap_def engine_defs mapnik_map_def empty_map_def
        BASEMAP_LAYER_ID_def BASEMAP_SOURCE_ID_def Let_def)
  have 4: "setBasemap False mapnik_map ''constructor'' =
        Inl (TypeError ''Cannot read properties of undefined'', empty_map)"
    by (simp add: setBasemap_def addBasemap_def 2 3 buildTileUrls_def Let_def)
  have 5: "getBasemap mapnik_map = Some ''OpenStreetMap.Mapnik''"
    "getLayer mapnik_map BASEMAP_LAYER_ID \<noteq> None"
    "getSource mapnik_map BASEMAP_SOURCE_ID \<noteq> None"
    "getBasemap empty_map = None"
    "getLayer empty_map BASEMAP_LAYER_ID = None"
    "getSource empty_map BASEMAP_SOURCE_ID = None"
    by (simp_all add: getBasemap_def truthy_def getLayer_def getSource_def mapnik_map_def
        empty_map_def BASEMAP_LAYER_ID_def BASEMAP_SOURCE_ID_def)
  have 6: "validateBasemapName ''constructor'' \<noteq> Inr ()"
    using 1 by (simp add: validateBasemapName_def Let_def)
  from 1 4 5 6 show ?thesis by blast
qed

text \<open>For the other names absent from the catalog the check of \<open>addBasemap\<close> throws
  first: the map is, when the error is thrown, exactly the map the call was given.\<close>

lemma addBasemap_unknown_unchanged:
  "name \<notin> set getBasemapNames \<Longrightarrow> name \<notin> set Object_prototype_names \<Longrightarrow>
     thrown (addBasemap hidpi m name) \<noteq> None \<and> state_after (addBasemap hidpi m name) = m
     \<and> thrown (setBasemap hidpi m name) \<noteq> None \<and> state_after (setBasemap hidpi m name) = m"
  by (simp add: addBasemap_unknown setBasemap_def thrown_def state_after_def)

section \<open>The registry and the engine's layers\<close>

lemma registry_removeSource [simp]: "layer_registry (removeSource m i) = layer_registry m"
  by (simp add: removeSource_def)

lemma layers_removeSource [simp]: "style_layers (removeSource m i) = style_layers m"
  by (simp add: removeSource_def)

lemma registry_removeLayer [simp]: "layer_registry (removeLayer m i) = layer_registry m"
  by (simp add: removeLayer_def)




















end
